theory Spec2Isabelle
  imports Main
begin

section \<open>The task check run store (store/task\_check\_run.go)\<close>

text \<open>
  The service keeps its rows in the table \<open>task_check_run\<close>. The table is modelled as the
  list of its rows in storage order; a \<open>SELECT\<close> and a \<open>RETURNING\<close> clause deliver rows in
  that order. A transaction works on a copy of the table: \<open>Commit\<close> publishes the copy,
  the deferred \<open>Rollback\<close> drops it.
\<close>

subsection \<open>Data\<close>

type_synonym TaskCheckType = string

text \<open>
  Modelled from the spec: the declaration of \<open>api.TaskCheckRunStatus\<close> is not part of the
  source; the source names \<open>TaskCheckRunRunning\<close> and \<open>TaskCheckRunDone\<close>, the data model
  gives the status set Running, Done, Failed.
\<close>

datatype TaskCheckRunStatus = TaskCheckRunRunning | TaskCheckRunDone | TaskCheckRunFailed

text \<open>The columns read by every \<open>Scan\<close> of the source, in that order.\<close>

record TaskCheckRun =
  ID :: int
  CreatorId :: int
  CreatedTs :: int
  UpdaterId :: int
  UpdatedTs :: int
  TaskId :: int
  Name :: string
  Status :: TaskCheckRunStatus
  Type :: TaskCheckType
  Comment :: string
  Result :: string
  Payload :: string

text \<open>\<open>api.TaskCheckRunCreate\<close>: the fields the source reads.\<close>

record TaskCheckRunCreate =
  create_CreatorId :: int
  create_TaskId :: int
  create_Name :: string
  create_Type :: TaskCheckType
  create_Comment :: string
  create_Payload :: string
  create_SkipIfAlreadyDone :: bool

text \<open>\<open>api.TaskCheckRunFind\<close>: a nil pointer is \<open>None\<close>.\<close>

record TaskCheckRunFind =
  find_ID :: "int option"
  find_TaskId :: "int option"
  find_StatusList :: "TaskCheckRunStatus list option"

text \<open>\<open>api.TaskCheckRunStatusPatch\<close>.\<close>

record TaskCheckRunStatusPatch =
  patch_ID :: "int option"
  patch_UpdaterId :: int
  patch_Status :: TaskCheckRunStatus
  patch_Comment :: string
  patch_Result :: string

text \<open>
  The database calls that can fail for reasons outside the table's contents. Each
  operation takes the fault that the driver raises during the call, or \<open>NoFault\<close>.
\<close>

datatype fault = NoFault | BeginTxFault | SelectFault | InsertFault | UpdateFault | CommitFault

text \<open>
  Errors. \<open>ENOTFOUND\<close> and \<open>ECONFLICT\<close> are the codes of \<open>common.Error\<close>;
  \<open>DriverError\<close> is an error of the database driver, \<open>ScanNoRows\<close> the error of
  \<open>Scan\<close> on a result set that has no row; \<open>FormatError\<close> is the source's wrapper
  (its body is not part of the source, so it stays a constructor).
\<close>

datatype error =
    ENOTFOUND
  | ECONFLICT
  | DriverError fault
  | ScanNoRows
  | FormatError error

text \<open>The warning of \<open>CreateTaskCheckRunIfNeeded\<close>: the count, the task id, the type.\<close>

datatype log_entry = Warn nat int TaskCheckType

text \<open>
  The values the database supplies to an \<open>INSERT\<close> for the columns the statement does
  not list (\<open>created_ts\<close>, \<open>updated_ts\<close>, \<open>result\<close>). The table's declaration is not part
  of the source, so they are parameters.
\<close>

record RowDefaults =
  default_ts :: int
  default_result :: string

subsection \<open>WHERE clauses\<close>

text \<open>
  The conditions the source appends to its \<open>where\<close> slices, with the bound arguments in
  place of the \<open>?\<close> marks. The slice is joined by \<open>AND\<close>.
\<close>

datatype cond =
    TrueCond
  | IdEq int
  | TaskIdEq int
  | StatusIn "TaskCheckRunStatus list"

fun holds :: "cond \<Rightarrow> TaskCheckRun \<Rightarrow> bool" where
  "holds TrueCond r = True"
| "holds (IdEq v) r = (ID r = v)"
| "holds (TaskIdEq v) r = (TaskId r = v)"
| "holds (StatusIn vs) r = (Status r \<in> set vs)"

definition where_all :: "cond list \<Rightarrow> TaskCheckRun \<Rightarrow> bool" where
  "where_all cs r = list_all (\<lambda>c. holds c r) cs"

subsection \<open>findTaskCheckRunList and its callers\<close>

definition find_where :: "TaskCheckRunFind \<Rightarrow> cond list" where
  "find_where fnd =
     (let wh = [TrueCond];
          wh = (case find_ID fnd of None \<Rightarrow> wh | Some v \<Rightarrow> wh @ [IdEq v]);
          wh = (case find_TaskId fnd of None \<Rightarrow> wh | Some v \<Rightarrow> wh @ [TaskIdEq v]);
          wh = (case find_StatusList fnd of None \<Rightarrow> wh | Some v \<Rightarrow> wh @ [StatusIn v])
      in wh)"

definition findTaskCheckRunList ::
    "fault \<Rightarrow> TaskCheckRun list \<Rightarrow> TaskCheckRunFind \<Rightarrow> error + TaskCheckRun list" where
  "findTaskCheckRunList flt tbl fnd =
     (if flt = SelectFault then Inl (FormatError (DriverError SelectFault))
      else Inr (filter (where_all (find_where fnd)) tbl))"

definition FindTaskCheckRunListTx ::
    "fault \<Rightarrow> TaskCheckRun list \<Rightarrow> TaskCheckRunFind \<Rightarrow> error + TaskCheckRun list" where
  "FindTaskCheckRunListTx flt tbl fnd =
     (case findTaskCheckRunList flt tbl fnd of
        Inl e \<Rightarrow> Inl e
      | Inr lst \<Rightarrow> Inr lst)"

definition FindTaskCheckRunList ::
    "fault \<Rightarrow> TaskCheckRun list \<Rightarrow> TaskCheckRunFind \<Rightarrow> error + TaskCheckRun list" where
  "FindTaskCheckRunList flt tbl fnd =
     (if flt = BeginTxFault then Inl (FormatError (DriverError BeginTxFault))
      else case findTaskCheckRunList flt tbl fnd of
             Inl e \<Rightarrow> Inl e
           | Inr lst \<Rightarrow> Inr lst)"

definition FindTaskCheckRunTx ::
    "fault \<Rightarrow> TaskCheckRun list \<Rightarrow> TaskCheckRunFind \<Rightarrow> error + TaskCheckRun" where
  "FindTaskCheckRunTx flt tbl fnd =
     (case findTaskCheckRunList flt tbl fnd of
        Inl e \<Rightarrow> Inl e
      | Inr lst \<Rightarrow>
          if length lst = 0 then Inl ENOTFOUND
          else if length lst > 1 then Inl ECONFLICT
          else Inr (lst ! 0))"

subsection \<open>CreateTaskCheckRunTx\<close>

text \<open>
  Modelled from the spec: the table's declaration is not part of the source; ids are
  auto-incremental primary keys, so the id of a new row is one more than the largest
  id in the table (and 1 in an empty table).
\<close>

definition next_id :: "TaskCheckRun list \<Rightarrow> int" where
  "next_id tbl = fold max (map ID tbl) 0 + 1"

text \<open>The row of the \<open>INSERT\<close>: its \<open>VALUES\<close> list with the status literal \<open>'RUNNING'\<close>.\<close>

definition inserted_row :: "RowDefaults \<Rightarrow> TaskCheckRun list \<Rightarrow> TaskCheckRunCreate \<Rightarrow> TaskCheckRun" where
  "inserted_row dflt tbl create =
     \<lparr> ID = next_id tbl,
       CreatorId = create_CreatorId create,
       CreatedTs = default_ts dflt,
       UpdaterId = create_CreatorId create,
       UpdatedTs = default_ts dflt,
       TaskId = create_TaskId create,
       Name = create_Name create,
       Status = TaskCheckRunRunning,
       Type = create_Type create,
       Comment = create_Comment create,
       Result = default_result dflt,
       Payload = create_Payload create \<rparr>"

text \<open>The second component is the table inside the transaction.\<close>

definition CreateTaskCheckRunTx ::
    "fault \<Rightarrow> RowDefaults \<Rightarrow> TaskCheckRun list \<Rightarrow> TaskCheckRunCreate
       \<Rightarrow> error + (TaskCheckRun \<times> TaskCheckRun list)" where
  "CreateTaskCheckRunTx flt dflt tbl create =
     (if flt = InsertFault then Inl (FormatError (DriverError InsertFault))
      else
        let taskCheckRun = inserted_row dflt tbl create
        in Inr (taskCheckRun, tbl @ [taskCheckRun]))"

subsection \<open>CreateTaskCheckRunIfNeeded\<close>

text \<open>
  The loop of the \<open>SkipIfAlreadyDone\<close> branch: it returns the first Done run it meets
  (\<open>Inl\<close>), and otherwise the number of Running runs (\<open>Inr\<close>).
\<close>

fun count_running :: "TaskCheckRun list \<Rightarrow> nat \<Rightarrow> TaskCheckRun + nat" where
  "count_running [] runningCount = Inr runningCount"
| "count_running (taskCheckRun # rest) runningCount =
     (if Status taskCheckRun = TaskCheckRunDone then Inl taskCheckRun
      else if Status taskCheckRun = TaskCheckRunRunning then count_running rest (runningCount + 1)
      else count_running rest runningCount)"

text \<open>The result, the table after the call, and the warnings logged.\<close>

definition CreateTaskCheckRunIfNeeded ::
    "fault \<Rightarrow> RowDefaults \<Rightarrow> TaskCheckRun list \<Rightarrow> TaskCheckRunCreate
       \<Rightarrow> (error + TaskCheckRun) \<times> TaskCheckRun list \<times> log_entry list" where
  "CreateTaskCheckRunIfNeeded flt dflt tbl create =
     (if flt = BeginTxFault then (Inl (FormatError (DriverError BeginTxFault)), tbl, [])
      else
        let statusList = [TaskCheckRunRunning];
            statusList = (if create_SkipIfAlreadyDone create
                          then statusList @ [TaskCheckRunDone] else statusList);
            taskCheckRunFind = \<lparr> find_ID = None,
                                 find_TaskId = Some (create_TaskId create),
                                 find_StatusList = Some statusList \<rparr>
        in case FindTaskCheckRunListTx flt tbl taskCheckRunFind of
             Inl e \<Rightarrow> (Inl e, tbl, [])
           | Inr taskCheckRunList \<Rightarrow>
               (case (if create_SkipIfAlreadyDone create
                      then count_running taskCheckRunList 0
                      else Inr (length taskCheckRunList)) of
                  Inl taskCheckRun \<Rightarrow> (Inr taskCheckRun, tbl, [])
                | Inr runningCount \<Rightarrow>
                    if runningCount > 0 then
                      (Inr (taskCheckRunList ! 0), tbl,
                       if runningCount > 1
                       then [Warn (length taskCheckRunList) (create_TaskId create)
                                  (create_Type create)]
                       else [])
                    else
                      (case CreateTaskCheckRunTx flt dflt tbl create of
                         Inl e \<Rightarrow> (Inl e, tbl, [])
                       | Inr (taskCheckRun, tbl') \<Rightarrow>
                           if flt = CommitFault
                           then (Inl (FormatError (DriverError CommitFault)), tbl, [])
                           else (Inr taskCheckRun, tbl', []))))"

subsection \<open>PatchTaskCheckRunStatus\<close>

definition patch_where :: "TaskCheckRunStatusPatch \<Rightarrow> cond list" where
  "patch_where patch =
     (let wh = [TrueCond];
          wh = (case patch_ID patch of None \<Rightarrow> wh | Some v \<Rightarrow> wh @ [IdEq v])
      in wh)"

text \<open>
  The \<open>SET\<close> clause: the statement writes four columns, every other column keeps its
  value (the table's declaration, with whatever it attaches to an update, is not part
  of the source).
\<close>

definition patch_set :: "TaskCheckRunStatusPatch \<Rightarrow> TaskCheckRun \<Rightarrow> TaskCheckRun" where
  "patch_set patch r =
     r\<lparr> UpdaterId := patch_UpdaterId patch,
        Status := patch_Status patch,
        Comment := patch_Comment patch,
        Result := patch_Result patch \<rparr>"

text \<open>
  The \<open>UPDATE\<close> writes every row the \<open>WHERE\<close> clause selects; \<open>RETURNING\<close> yields the
  written rows, of which the source scans the first. With no written row the \<open>Scan\<close>
  fails. The second component is the table inside the transaction.
\<close>

definition PatchTaskCheckRunStatusTx ::
    "fault \<Rightarrow> TaskCheckRun list \<Rightarrow> TaskCheckRunStatusPatch
       \<Rightarrow> (error + TaskCheckRun) \<times> TaskCheckRun list" where
  "PatchTaskCheckRunStatusTx flt tbl patch =
     (if flt = UpdateFault then (Inl (FormatError (DriverError UpdateFault)), tbl)
      else
        let wh = patch_where patch;
            tbl' = map (\<lambda>r. if where_all wh r then patch_set patch r else r) tbl;
            returning = map (patch_set patch) (filter (where_all wh) tbl)
        in case returning of
             [] \<Rightarrow> (Inl (FormatError ScanNoRows), tbl')
           | taskCheckRun # _ \<Rightarrow> (Inr taskCheckRun, tbl'))"

definition PatchTaskCheckRunStatus ::
    "fault \<Rightarrow> TaskCheckRun list \<Rightarrow> TaskCheckRunStatusPatch
       \<Rightarrow> (error + TaskCheckRun) \<times> TaskCheckRun list" where
  "PatchTaskCheckRunStatus flt tbl patch =
     (if flt = BeginTxFault then (Inl (FormatError (DriverError BeginTxFault)), tbl)
      else case PatchTaskCheckRunStatusTx flt tbl patch of
             (Inl e, _) \<Rightarrow> (Inl (FormatError e), tbl)
           | (Inr taskCheckRun, tbl') \<Rightarrow>
               if flt = CommitFault
               then (Inl (FormatError (DriverError CommitFault)), tbl)
               else (Inr taskCheckRun, tbl'))"

subsection \<open>Sequences of registry operations\<close>

text \<open>
  The two writing operations of the registry, each with the fault of its call, and the
  table they leave behind.
\<close>

datatype registry_op =
    OpCreate fault RowDefaults TaskCheckRunCreate
  | OpPatch fault TaskCheckRunStatusPatch

fun registry_step :: "TaskCheckRun list \<Rightarrow> registry_op \<Rightarrow> TaskCheckRun list" where
  "registry_step tbl (OpCreate flt dflt create) =
     fst (snd (CreateTaskCheckRunIfNeeded flt dflt tbl create))"
| "registry_step tbl (OpPatch flt patch) = snd (PatchTaskCheckRunStatus flt tbl patch)"

definition registry_run :: "TaskCheckRun list \<Rightarrow> registry_op list \<Rightarrow> TaskCheckRun list" where
  "registry_run tbl ops = foldl registry_step tbl ops"

text \<open>The Running runs of a (task, check type) pair, and those of a task.\<close>

definition running_of_pair :: "int \<Rightarrow> TaskCheckType \<Rightarrow> TaskCheckRun list \<Rightarrow> TaskCheckRun list" where
  "running_of_pair t ty tbl =
     filter (\<lambda>r. TaskId r = t \<and> Type r = ty \<and> Status r = TaskCheckRunRunning) tbl"

definition running_of_task :: "int \<Rightarrow> TaskCheckRun list \<Rightarrow> TaskCheckRun list" where
  "running_of_task t tbl = filter (\<lambda>r. TaskId r = t \<and> Status r = TaskCheckRunRunning) tbl"

definition no_running :: "TaskCheckRun list \<Rightarrow> bool" where
  "no_running tbl = (filter (\<lambda>r. Status r = TaskCheckRunRunning) tbl = [])"

text \<open>An operation that does not write the status Running with a patch.\<close>

fun patches_out_of_running :: "registry_op \<Rightarrow> bool" where
  "patches_out_of_running (OpCreate flt dflt create) = True"
| "patches_out_of_running (OpPatch flt patch) = (patch_Status patch \<noteq> TaskCheckRunRunning)"

subsection \<open>The filter as the specification words it\<close>

text \<open>
  One predicate for each field of the filter that is not nil, all of them joined by
  conjunction.
\<close>

definition find_matches :: "TaskCheckRunFind \<Rightarrow> TaskCheckRun \<Rightarrow> bool" where
  "find_matches fnd r =
     ((case find_ID fnd of None \<Rightarrow> True | Some v \<Rightarrow> ID r = v) \<and>
      (case find_TaskId fnd of None \<Rightarrow> True | Some v \<Rightarrow> TaskId r = v) \<and>
      (case find_StatusList fnd of None \<Rightarrow> True | Some vs \<Rightarrow> Status r \<in> set vs))"

text \<open>The filter that \<open>CreateTaskCheckRunIfNeeded\<close> builds for its query.\<close>

definition create_find :: "TaskCheckRunCreate \<Rightarrow> TaskCheckRunFind" where
  "create_find create =
     \<lparr> find_ID = None,
       find_TaskId = Some (create_TaskId create),
       find_StatusList = Some (if create_SkipIfAlreadyDone create
                               then [TaskCheckRunRunning, TaskCheckRunDone]
                               else [TaskCheckRunRunning]) \<rparr>"

subsection \<open>Example data\<close>

definition example_run :: "int \<Rightarrow> int \<Rightarrow> TaskCheckType \<Rightarrow> TaskCheckRunStatus \<Rightarrow> TaskCheckRun" where
  "example_run i t ty st =
     \<lparr> ID = i, CreatorId = 1, CreatedTs = 0, UpdaterId = 1, UpdatedTs = 0, TaskId = t,
       Name = ''check'', Status = st, Type = ty, Comment = [], Result = [], Payload = [] \<rparr>"

definition example_create :: "int \<Rightarrow> TaskCheckType \<Rightarrow> bool \<Rightarrow> TaskCheckRunCreate" where
  "example_create t ty skip =
     \<lparr> create_CreatorId = 1, create_TaskId = t, create_Name = ''check'', create_Type = ty,
       create_Comment = [], create_Payload = [], create_SkipIfAlreadyDone = skip \<rparr>"

definition example_defaults :: RowDefaults where
  "example_defaults = \<lparr> default_ts = 0, default_result = [] \<rparr>"

definition example_patch :: "int option \<Rightarrow> TaskCheckRunStatus \<Rightarrow> TaskCheckRunStatusPatch" where
  "example_patch i st =
     \<lparr> patch_ID = i, patch_UpdaterId = 2, patch_Status = st,
       patch_Comment = ''patched'', patch_Result = ''[]'' \<rparr>"

section \<open>The SQL task executor (server, SqlTaskExecutor.RunOnce)\<close>

text \<open>
  \<open>RunOnce\<close> decodes the payload of a task, derives the migration info, checks the
  statement and then talks to the target instance through a driver. The JSON decoder,
  the parser of migration file names, the composition of the task's database and the
  driver are not part of the source: they are parameters, gathered in the record
  \<open>Collaborators\<close>. An error of a collaborator is a message.
\<close>

subsection \<open>Data\<close>

type_synonym message = string

text \<open>The fields of the push event that the source reads.\<close>

record FileCommit =
  Added :: string
  AuthorName :: string

record VCSPushEvent =
  push_FileCommit :: FileCommit

text \<open>\<open>api.TaskDatabaseSchemaUpdatePayload\<close>: a nil \<open>VCSPushEvent\<close> is \<open>None\<close>.\<close>

record TaskDatabaseSchemaUpdatePayload =
  Statement :: string
  payload_VCSPushEvent :: "VCSPushEvent option"

text \<open>
  Modelled from the spec: the declaration of \<open>db.MigrationType\<close> and \<open>db.MigrationInfo\<close>
  is not part of the source, which names \<open>db.Sql\<close>, \<open>db.Baseline\<close>, \<open>mi.Type\<close> and
  \<open>mi.Creator\<close>; the data model gives the kinds Baseline and Migrate and the parsed
  version and description.
\<close>

datatype MigrationType = Baseline | Migrate | Sql

record MigrationInfo =
  mi_Version :: string
  mi_Type :: MigrationType
  mi_Description :: string
  mi_Creator :: string

record Instance =
  instance_Name :: string
  instance_Engine :: string
  instance_Username :: string
  instance_Password :: string
  instance_Host :: string
  instance_Port :: string

record Database =
  database_Name :: string
  database_Instance :: Instance

record Task =
  task_Payload :: string

record ConnectionConfig =
  conn_Username :: string
  conn_Password :: string
  conn_Host :: string
  conn_Port :: string
  conn_Database :: string

text \<open>The driver that \<open>db.Open\<close> returns: the outcome of each of its three calls.\<close>

record Driver =
  Execute :: "string \<Rightarrow> message option"
  NeedsSetupMigration :: "message + bool"
  ExecuteMigration :: "MigrationInfo \<Rightarrow> string \<Rightarrow> message option"

text \<open>
  \<open>ComposeTaskRelationship\<close> fills \<open>task.Database\<close> and its instance in place; the model
  returns the database it fills in, so a call that succeeds has filled both in and
  \<open>task.Database.Instance\<close> is there to read.
\<close>

record Collaborators =
  json_Unmarshal :: "string \<Rightarrow> message + TaskDatabaseSchemaUpdatePayload"
  db_ParseMigrationInfo :: "string \<Rightarrow> message + MigrationInfo"
  server_ComposeTaskRelationship :: "Task \<Rightarrow> message + Database"
  db_Open :: "string \<Rightarrow> ConnectionConfig \<Rightarrow> message + Driver"

text \<open>
  The errors \<open>RunOnce\<close> returns, one constructor for each \<open>fmt.Errorf\<close> of the source;
  \<open>Unwrapped\<close> is an error of a collaborator returned as it is.
\<close>

datatype exec_error =
    InvalidSchemaUpdatePayload message
  | FailedToStartSchemaMigration message
  | EmptySqlStatement
  | Unwrapped message
  | FailedToConnectInstance string string message
  | FailedToCheckMigrationSetup string message
  | MissingMigrationSchema string

text \<open>The calls made on the target instance, in the order they are made.\<close>

datatype driver_call =
    CallOpen string ConnectionConfig
  | CallExecute string
  | CallNeedsSetupMigration
  | CallExecuteMigration MigrationInfo string

subsection \<open>Library functions\<close>

text \<open>
  \<open>filepath.Base\<close> with the separator \<open>/\<close>: the last element of the path, after
  trailing separators are removed; \<open>.\<close> for the empty path, \<open>/\<close> for a path of
  separators only.
\<close>

definition filepath_Base :: "string \<Rightarrow> string" where
  "filepath_Base path =
     (if path = [] then ''.''
      else
        let stripped = rev (dropWhile (\<lambda>c. c = CHR ''/'') (rev path));
            element = rev (takeWhile (\<lambda>c. c \<noteq> CHR ''/'') (rev stripped))
        in if element = [] then ''/'' else element)"

text \<open>
  \<open>strings.TrimSpace\<close> removes leading and trailing white space, as Unicode defines it,
  from a string of bytes read as UTF-8. It is \<open>TrimFunc(s, unicode.IsSpace)\<close> (the
  library takes a shortcut on ASCII bytes that computes the same string). The functions
  below follow the Go library: runes are code points, bytes are read with \<open>of_char\<close>,
  and the masks and shifts of the decoder are written with \<open>mod\<close> and products.

  \<open>utf8.DecodeRuneInString\<close>: the first rune of the string and its width in bytes; a
  byte sequence that is not valid UTF-8 gives \<open>RuneError\<close> with width 1.
\<close>

definition RuneError :: nat where
  "RuneError = 0xFFFD"

definition DecodeRuneInString :: "string \<Rightarrow> nat \<times> nat" where
  "DecodeRuneInString s =
     (case s of
        [] \<Rightarrow> (RuneError, 0)
      | c0 # _ \<Rightarrow>
          (let s0 = (of_char c0 :: nat)
           in if s0 < 0x80 then (s0, 1)
              else if s0 < 0xC2 \<or> 0xF4 < s0 then (RuneError, 1)
              else
                (let sz = (if s0 < 0xE0 then 2 else if s0 < 0xF0 then 3 else (4::nat));
                     lo = (if s0 = 0xE0 then 0xA0 else if s0 = 0xF0 then 0x90 else (0x80::nat));
                     hi = (if s0 = 0xED then 0x9F else if s0 = 0xF4 then 0x8F else (0xBF::nat))
                 in if length s < sz then (RuneError, 1)
                    else
                      (let s1 = (of_char (s ! 1) :: nat)
                       in if s1 < lo \<or> hi < s1 then (RuneError, 1)
                          else if sz \<le> 2 then ((s0 mod 32) * 64 + s1 mod 64, 2)
                          else
                            (let s2 = (of_char (s ! 2) :: nat)
                             in if s2 < 0x80 \<or> 0xBF < s2 then (RuneError, 1)
                                else if sz \<le> 3
                                then ((s0 mod 16) * 4096 + (s1 mod 64) * 64 + s2 mod 64, 3)
                                else
                                  (let s3 = (of_char (s ! 3) :: nat)
                                   in if s3 < 0x80 \<or> 0xBF < s3 then (RuneError, 1)
                                      else ((s0 mod 8) * 262144 + (s1 mod 64) * 4096
                                              + (s2 mod 64) * 64 + s3 mod 64, 4)))))))"

text \<open>
  \<open>utf8.DecodeLastRuneInString\<close>: it steps back from the last byte to the nearest byte
  that can start a rune, at most \<open>UTFMax = 4\<close> bytes from the end, and decodes from
  there; the rune counts only when it reaches the end of the string.
\<close>

definition RuneStart :: "char \<Rightarrow> bool" where
  "RuneStart b = ((of_char b :: nat) div 64 \<noteq> 2)"

function scan_rune_start :: "string \<Rightarrow> int \<Rightarrow> int \<Rightarrow> int" where
  "scan_rune_start s start lim =
     (if start \<ge> lim
      then (if RuneStart (s ! nat start) then start else scan_rune_start s (start - 1) lim)
      else start)"
  by pat_completeness auto
termination
  by (relation "measure (\<lambda>(s, start, lim). nat (start - lim + 1))") auto

declare scan_rune_start.simps [simp del]

definition DecodeLastRuneInString :: "string \<Rightarrow> nat \<times> nat" where
  "DecodeLastRuneInString s =
     (let end = length s
      in if end = 0 then (RuneError, 0)
         else
           (let r = (of_char (s ! (end - 1)) :: nat)
            in if r < 0x80 then (r, 1)
               else
                 (let lim = (if int end - 4 < 0 then 0 else int end - 4);
                      start = scan_rune_start s (int end - 2) lim;
                      start = (if start < 0 then 0 else start);
                      d = DecodeRuneInString (drop (nat start) s)
                  in if nat start + snd d \<noteq> end then (RuneError, 1) else d)))"

text \<open>
  \<open>unicode.IsSpace\<close>: the eight white space characters of Latin-1, and beyond Latin-1
  the code points with the property \<open>White_Space\<close>.
\<close>

definition unicode_IsSpace :: "nat \<Rightarrow> bool" where
  "unicode_IsSpace r =
     (if r \<le> 0xFF
      then r \<in> set [0x09, 0x0A, 0x0B, 0x0C, 0x0D, 0x20, 0x85, 0xA0]
      else r = 0x1680 \<or> (0x2000 \<le> r \<and> r \<le> 0x200A) \<or> r = 0x2028 \<or> r = 0x2029 \<or>
           r = 0x202F \<or> r = 0x205F \<or> r = 0x3000)"

text \<open>
  \<open>indexFunc\<close> ranges over the runes of the string and returns the byte index of the
  first rune \<open>r\<close> with \<open>f r = truth\<close>, or \<open>-1\<close>.
\<close>

function range_indexFunc :: "string \<Rightarrow> nat \<Rightarrow> (nat \<Rightarrow> bool) \<Rightarrow> bool \<Rightarrow> int" where
  "range_indexFunc s i f truth =
     (if i < length s
      then (let d = DecodeRuneInString (drop i s)
            in if f (fst d) = truth then int i
               else range_indexFunc s (i + snd d) f truth)
      else - 1)"
  by pat_completeness auto
termination
proof (relation "measure (\<lambda>(s, i, f, truth). length s - i)")
  show "wf (measure (\<lambda>(s, i, f, truth). length s - i))" by simp
next
  fix s :: string and i :: nat and f :: "nat \<Rightarrow> bool" and truth :: bool and d :: "nat \<times> nat"
  assume i: "i < length s" and d: "d = DecodeRuneInString (drop i s)"
  from i obtain c cs where "drop i s = c # cs"
    by (cases "drop i s") auto
  then have "0 < snd d"
    unfolding d DecodeRuneInString_def by (simp add: Let_def)
  with i show "((s, i + snd d, f, truth), (s, i, f, truth))
                 \<in> measure (\<lambda>(s, i, f, truth). length s - i)"
    by simp
qed

declare range_indexFunc.simps [simp del]

definition indexFunc :: "string \<Rightarrow> (nat \<Rightarrow> bool) \<Rightarrow> bool \<Rightarrow> int" where
  "indexFunc s f truth = range_indexFunc s 0 f truth"

text \<open>
  \<open>lastIndexFunc\<close> does the same from the end. Its loop variable \<open>i\<close> is carried as the
  prefix \<open>s[0:i]\<close>.
\<close>

function lastIndexFunc_loop :: "string \<Rightarrow> (nat \<Rightarrow> bool) \<Rightarrow> bool \<Rightarrow> int" where
  "lastIndexFunc_loop prefix f truth =
     (if 0 < length prefix
      then (let d = DecodeLastRuneInString prefix;
                i = length prefix - snd d
            in if f (fst d) = truth then int i
               else lastIndexFunc_loop (take i prefix) f truth)
      else - 1)"
  by pat_completeness auto
termination
proof (relation "measure (\<lambda>(prefix, f, truth). length prefix)")
  show "wf (measure (\<lambda>(prefix, f, truth). length prefix))" by simp
next
  fix prefix :: string and f :: "nat \<Rightarrow> bool" and truth :: bool
    and d :: "nat \<times> nat" and i :: nat
  assume p: "0 < length prefix" and d: "d = DecodeLastRuneInString prefix"
    and i: "i = length prefix - snd d"
  have scan_le: "scan_rune_start s a lim \<le> a" for s a lim
    by (induction s a lim rule: scan_rune_start.induct)
       (subst scan_rune_start.simps, auto)
  have pos: "0 < snd (DecodeRuneInString t)" if "t \<noteq> []" for t
    using that by (cases t) (simp_all add: DecodeRuneInString_def Let_def)
  define start where
    "start = scan_rune_start prefix (int (length prefix) - 2)
               (if int (length prefix) - 4 < 0 then 0 else int (length prefix) - 4)"
  define start' where "start' = (if start < 0 then 0 else start)"
  have "start \<le> int (length prefix) - 2"
    unfolding start_def by (rule scan_le)
  with p have "nat start' < length prefix"
    unfolding start'_def by auto
  then have "drop (nat start') prefix \<noteq> []" by simp
  then have "0 < snd (DecodeRuneInString (drop (nat start') prefix))" by (rule pos)
  then have "0 < snd d"
    using p unfolding d DecodeLastRuneInString_def Let_def start'_def start_def
    by simp
  with p i show "((take i prefix, f, truth), (prefix, f, truth))
                   \<in> measure (\<lambda>(prefix, f, truth). length prefix)"
    by simp
qed

declare lastIndexFunc_loop.simps [simp del]

definition lastIndexFunc :: "string \<Rightarrow> (nat \<Rightarrow> bool) \<Rightarrow> bool \<Rightarrow> int" where
  "lastIndexFunc s f truth = lastIndexFunc_loop s f truth"

text \<open>\<open>TrimLeftFunc\<close>, \<open>TrimRightFunc\<close>, \<open>TrimFunc\<close> and \<open>TrimSpace\<close> of package \<open>strings\<close>.\<close>

definition TrimLeftFunc :: "string \<Rightarrow> (nat \<Rightarrow> bool) \<Rightarrow> string" where
  "TrimLeftFunc s f =
     (let i = indexFunc s f False
      in if i = - 1 then [] else drop (nat i) s)"

definition TrimRightFunc :: "string \<Rightarrow> (nat \<Rightarrow> bool) \<Rightarrow> string" where
  "TrimRightFunc s f =
     (let i = lastIndexFunc s f False;
          i = (if i \<ge> 0 \<and> (of_char (s ! nat i) :: nat) \<ge> 0x80
               then i + int (snd (DecodeRuneInString (drop (nat i) s)))
               else i + 1)
      in take (nat i) s)"

definition TrimFunc :: "string \<Rightarrow> (nat \<Rightarrow> bool) \<Rightarrow> string" where
  "TrimFunc s f = TrimRightFunc (TrimLeftFunc s f) f"

definition strings_TrimSpace :: "string \<Rightarrow> string" where
  "strings_TrimSpace s = TrimFunc s unicode_IsSpace"

subsection \<open>RunOnce\<close>

text \<open>
  The migration info of a payload: the kind \<open>Sql\<close> with every other field empty when
  there is no push event; otherwise the info parsed from the base name of the added
  file, with the commit author as creator.
\<close>

definition migration_info ::
    "Collaborators \<Rightarrow> TaskDatabaseSchemaUpdatePayload \<Rightarrow> message + MigrationInfo" where
  "migration_info env payload =
     (let mi = \<lparr> mi_Version = [], mi_Type = Sql, mi_Description = [], mi_Creator = [] \<rparr>
      in case payload_VCSPushEvent payload of
           None \<Rightarrow> Inr mi
         | Some ev \<Rightarrow>
             (let filename = filepath_Base (Added (push_FileCommit ev))
              in (case db_ParseMigrationInfo env filename of
                    Inl err \<Rightarrow> Inl err
                  | Inr mi \<Rightarrow> Inr (mi\<lparr> mi_Creator := AuthorName (push_FileCommit ev) \<rparr>))))"

text \<open>
  The part of \<open>RunOnce\<close> after the connection is open. The result is
  \<open>(terminated, err, calls)\<close>.
\<close>

definition run_on_driver ::
    "Driver \<Rightarrow> TaskDatabaseSchemaUpdatePayload \<Rightarrow> MigrationInfo \<Rightarrow> string \<Rightarrow> Instance
       \<Rightarrow> bool \<times> exec_error option \<times> driver_call list" where
  "run_on_driver driver payload mi sql inst =
     (if payload_VCSPushEvent payload = None then
        (case Execute driver sql of
           Some err \<Rightarrow> (True, Some (Unwrapped err), [CallExecute sql])
         | None \<Rightarrow> (True, None, [CallExecute sql]))
      else
        (case NeedsSetupMigration driver of
           Inl err \<Rightarrow>
             (True, Some (FailedToCheckMigrationSetup (instance_Name inst) err),
              [CallNeedsSetupMigration])
         | Inr setup \<Rightarrow>
             if setup then
               (True, Some (MissingMigrationSchema (instance_Name inst)),
                [CallNeedsSetupMigration])
             else
               (case ExecuteMigration driver mi sql of
                  Some err \<Rightarrow>
                    (True, Some (Unwrapped err),
                     [CallNeedsSetupMigration, CallExecuteMigration mi sql])
                | None \<Rightarrow>
                    (True, None, [CallNeedsSetupMigration, CallExecuteMigration mi sql]))))"

text \<open>The \<open>db.ConnectionConfig\<close> that \<open>RunOnce\<close> passes to \<open>db.Open\<close>.\<close>

definition connection_config :: "Database \<Rightarrow> ConnectionConfig" where
  "connection_config database =
     (let inst = database_Instance database
      in \<lparr> conn_Username = instance_Username inst,
           conn_Password = instance_Password inst,
           conn_Host = instance_Host inst,
           conn_Port = instance_Port inst,
           conn_Database = database_Name database \<rparr>)"

definition RunOnce ::
    "Collaborators \<Rightarrow> Task \<Rightarrow> bool \<times> exec_error option \<times> driver_call list" where
  "RunOnce env task =
     (case json_Unmarshal env (task_Payload task) of
        Inl err \<Rightarrow> (True, Some (InvalidSchemaUpdatePayload err), [])
      | Inr payload \<Rightarrow>
          (case migration_info env payload of
             Inl err \<Rightarrow> (True, Some (FailedToStartSchemaMigration err), [])
           | Inr mi \<Rightarrow>
               let sql = strings_TrimSpace (Statement payload)
               in if mi_Type mi \<noteq> Baseline \<and> sql = [] then (True, Some EmptySqlStatement, [])
                  else
                    (case server_ComposeTaskRelationship env task of
                       Inl err \<Rightarrow> (True, Some (Unwrapped err), [])
                     | Inr database \<Rightarrow>
                         let inst = database_Instance database;
                             open_call = CallOpen (instance_Engine inst)
                                           (connection_config database)
                         in (case db_Open env (instance_Engine inst)
                                    (connection_config database) of
                               Inl err \<Rightarrow>
                                 (True,
                                  Some (FailedToConnectInstance (instance_Name inst)
                                          (instance_Username inst) err),
                                  [open_call])
                             | Inr driver \<Rightarrow>
                                 (let (terminated, err, calls) =
                                        run_on_driver driver payload mi sql inst
                                  in (terminated, err, open_call # calls))))))"

subsection \<open>Example collaborators\<close>

definition example_instance :: Instance where
  "example_instance =
     \<lparr> instance_Name = ''prod'', instance_Engine = ''MYSQL'', instance_Username = ''admin'',
       instance_Password = ''secret'', instance_Host = ''db.example.com'',
       instance_Port = ''3306'' \<rparr>"

definition example_database :: Database where
  "example_database = \<lparr> database_Name = ''shop'', database_Instance = example_instance \<rparr>"

definition example_config :: ConnectionConfig where
  "example_config =
     \<lparr> conn_Username = ''admin'', conn_Password = ''secret'', conn_Host = ''db.example.com'',
       conn_Port = ''3306'', conn_Database = ''shop'' \<rparr>"

text \<open>A driver whose calls succeed; \<open>setup\<close> is the answer of \<open>NeedsSetupMigration\<close>.\<close>

definition example_driver :: "bool \<Rightarrow> Driver" where
  "example_driver setup =
     \<lparr> Execute = (\<lambda>sql. None),
       NeedsSetupMigration = Inr setup,
       ExecuteMigration = (\<lambda>mi sql. None) \<rparr>"

text \<open>
  A file name parser that knows two names, and collaborators that decode the payload
  text to a given payload.
\<close>

definition example_parse :: "string \<Rightarrow> message + MigrationInfo" where
  "example_parse filename =
     (if filename = ''shop__0001__migrate__add_table.sql''
      then Inr \<lparr> mi_Version = ''0001'', mi_Type = Migrate, mi_Description = ''add_table'',
                 mi_Creator = [] \<rparr>
      else if filename = ''shop__0000__baseline__initial.sql''
      then Inr \<lparr> mi_Version = ''0000'', mi_Type = Baseline, mi_Description = ''initial'',
                 mi_Creator = [] \<rparr>
      else Inl ''unrecognized migration file name'')"

definition example_env :: "TaskDatabaseSchemaUpdatePayload \<Rightarrow> bool \<Rightarrow> Collaborators" where
  "example_env payload setup =
     \<lparr> json_Unmarshal = (\<lambda>text. Inr payload),
       db_ParseMigrationInfo = example_parse,
       server_ComposeTaskRelationship = (\<lambda>task. Inr example_database),
       db_Open = (\<lambda>engine config. Inr (example_driver setup)) \<rparr>"

definition example_task :: Task where
  "example_task = \<lparr> task_Payload = ''payload'' \<rparr>"

definition example_push :: "string \<Rightarrow> VCSPushEvent" where
  "example_push added =
     \<lparr> push_FileCommit = \<lparr> Added = added, AuthorName = ''alice'' \<rparr> \<rparr>"

section \<open>Properties of the task check run store\<close>

subsection \<open>Queries\<close>

lemma where_all_find_where: "where_all (find_where fnd) r = find_matches fnd r"
  by (simp add: where_all_def find_where_def find_matches_def split: option.splits)

lemma findTaskCheckRunList_ok:
  "flt \<noteq> SelectFault \<Longrightarrow> findTaskCheckRunList flt tbl fnd = Inr (filter (find_matches fnd) tbl)"
  by (simp add: findTaskCheckRunList_def where_all_find_where [abs_def])

lemma FindTaskCheckRunListTx_ok:
  "flt \<noteq> SelectFault \<Longrightarrow> FindTaskCheckRunListTx flt tbl fnd = Inr (filter (find_matches fnd) tbl)"
  by (simp add: FindTaskCheckRunListTx_def findTaskCheckRunList_ok)

lemma FindTaskCheckRunListTx_fault:
  "FindTaskCheckRunListTx SelectFault tbl fnd = Inl (FormatError (DriverError SelectFault))"
  by (simp add: FindTaskCheckRunListTx_def findTaskCheckRunList_def)

lemma count_running_find:
  "count_running xs n =
     (case List.find (\<lambda>r. Status r = TaskCheckRunDone) xs of
        Some r \<Rightarrow> Inl r
      | None \<Rightarrow> Inr (n + length (filter (\<lambda>r. Status r = TaskCheckRunRunning) xs)))"
  by (induction xs arbitrary: n) (auto split: option.splits)

text \<open>The call with the query factored out.\<close>

lemma CreateTaskCheckRunIfNeeded_unfold:
  "CreateTaskCheckRunIfNeeded flt dflt tbl create =
     (if flt = BeginTxFault then (Inl (FormatError (DriverError BeginTxFault)), tbl, [])
      else case FindTaskCheckRunListTx flt tbl (create_find create) of
             Inl e \<Rightarrow> (Inl e, tbl, [])
           | Inr taskCheckRunList \<Rightarrow>
               (case (if create_SkipIfAlreadyDone create
                      then count_running taskCheckRunList 0
                      else Inr (length taskCheckRunList)) of
                  Inl taskCheckRun \<Rightarrow> (Inr taskCheckRun, tbl, [])
                | Inr runningCount \<Rightarrow>
                    if runningCount > 0 then
                      (Inr (taskCheckRunList ! 0), tbl,
                       if runningCount > 1
                       then [Warn (length taskCheckRunList) (create_TaskId create)
                                  (create_Type create)]
                       else [])
                    else
                      (case CreateTaskCheckRunTx flt dflt tbl create of
                         Inl e \<Rightarrow> (Inl e, tbl, [])
                       | Inr (taskCheckRun, tbl') \<Rightarrow>
                           if flt = CommitFault
                           then (Inl (FormatError (DriverError CommitFault)), tbl, [])
                           else (Inr taskCheckRun, tbl', []))))"
  by (simp add: CreateTaskCheckRunIfNeeded_def create_find_def Let_def)

lemma create_find_matches:
  "find_matches (create_find create) r =
     (TaskId r = create_TaskId create \<and>
      (Status r = TaskCheckRunRunning \<or>
       (create_SkipIfAlreadyDone create \<and> Status r = TaskCheckRunDone)))"
  by (auto simp: find_matches_def create_find_def)

lemma running_of_query:
  "filter (\<lambda>r. Status r = TaskCheckRunRunning) (filter (find_matches (create_find create)) tbl)
     = running_of_task (create_TaskId create) tbl"
  by (auto simp: running_of_task_def create_find_matches intro: filter_cong)

lemma create_table_cases:
  "fst (snd (CreateTaskCheckRunIfNeeded flt dflt tbl create)) = tbl \<or>
   (running_of_task (create_TaskId create) tbl = [] \<and>
    fst (snd (CreateTaskCheckRunIfNeeded flt dflt tbl create))
      = tbl @ [inserted_row dflt tbl create])"
proof (cases "flt = BeginTxFault \<or> flt = SelectFault")
  case True
  then show ?thesis
    by (auto simp: CreateTaskCheckRunIfNeeded_unfold FindTaskCheckRunListTx_fault)
next
  case False
  let ?lst = "filter (find_matches (create_find create)) tbl"
  have q: "FindTaskCheckRunListTx flt tbl (create_find create) = Inr ?lst"
    using False by (simp add: FindTaskCheckRunListTx_ok)
  have r: "filter (\<lambda>r. Status r = TaskCheckRunRunning) ?lst
             = running_of_task (create_TaskId create) tbl"
    by (rule running_of_query)
  show ?thesis
  proof (cases "create_SkipIfAlreadyDone create")
    case True
    then show ?thesis
      using False r
      by (auto simp: CreateTaskCheckRunIfNeeded_unfold q count_running_find
            CreateTaskCheckRunTx_def Let_def split: option.splits)
  next
    case nskip: False
    then have "?lst = running_of_task (create_TaskId create) tbl"
      by (auto simp: running_of_task_def create_find_matches intro: filter_cong)
    then show ?thesis
      using False nskip
      by (auto simp: CreateTaskCheckRunIfNeeded_unfold q CreateTaskCheckRunTx_def Let_def)
  qed
qed

lemma inserted_row_fields:
  "TaskId (inserted_row dflt tbl create) = create_TaskId create"
  "Type (inserted_row dflt tbl create) = create_Type create"
  "Status (inserted_row dflt tbl create) = TaskCheckRunRunning"
  "ID (inserted_row dflt tbl create) = next_id tbl"
  by (simp_all add: inserted_row_def)

lemma patch_table_cases:
  "snd (PatchTaskCheckRunStatus flt tbl patch) = tbl \<or>
   snd (PatchTaskCheckRunStatus flt tbl patch)
     = map (\<lambda>r. if where_all (patch_where patch) r then patch_set patch r else r) tbl"
  by (auto simp: PatchTaskCheckRunStatus_def PatchTaskCheckRunStatusTx_def Let_def
        split: list.splits sum.splits prod.splits)

lemma length_filter_map_le:
  "(\<And>x. P (f x) \<Longrightarrow> Q x) \<Longrightarrow> length (filter P (map f xs)) \<le> length (filter Q xs)"
  by (induction xs) auto

lemma patch_set_fields:
  "Status (patch_set patch r) = patch_Status patch"
  "TaskId (patch_set patch r) = TaskId r"
  "Type (patch_set patch r) = Type r"
  "ID (patch_set patch r) = ID r"
  by (simp_all add: patch_set_def)

lemma step_running_of_task:
  assumes "patches_out_of_running op"
  shows "length (running_of_task t (registry_step tbl op))
           \<le> max 1 (length (running_of_task t tbl))"
proof (cases op)
  case (OpCreate flt dflt create)
  show ?thesis
    using create_table_cases [of flt dflt tbl create]
    by (auto simp: OpCreate running_of_task_def inserted_row_fields)
next
  case (OpPatch flt patch)
  with assms have ns: "patch_Status patch \<noteq> TaskCheckRunRunning" by simp
  have "length (running_of_task t (registry_step tbl op)) \<le> length (running_of_task t tbl)"
    using patch_table_cases [of flt tbl patch]
  proof
    assume "snd (PatchTaskCheckRunStatus flt tbl patch) = tbl"
    then show ?thesis by (simp add: OpPatch)
  next
    assume m: "snd (PatchTaskCheckRunStatus flt tbl patch)
      = map (\<lambda>r. if where_all (patch_where patch) r then patch_set patch r else r) tbl"
    show ?thesis
      unfolding running_of_task_def OpPatch registry_step.simps m
      by (rule length_filter_map_le) (use ns in \<open>auto simp: patch_set_fields split: if_splits\<close>)
  qed
  then show ?thesis by simp
qed

lemma step_running_of_pair:
  assumes "patches_out_of_running op" and "running_of_pair t ty tbl \<noteq> []"
  shows "length (running_of_pair t ty (registry_step tbl op))
           \<le> length (running_of_pair t ty tbl)"
proof (cases op)
  case (OpCreate flt dflt create)
  from assms(2) obtain r where "r \<in> set tbl" "TaskId r = t" "Status r = TaskCheckRunRunning"
    by (fastforce simp: running_of_pair_def filter_empty_conv)
  then have "running_of_task t tbl \<noteq> []"
    by (auto simp: running_of_task_def filter_empty_conv)
  then show ?thesis
    using create_table_cases [of flt dflt tbl create]
    by (auto simp: OpCreate running_of_pair_def inserted_row_fields)
next
  case (OpPatch flt patch)
  with assms have ns: "patch_Status patch \<noteq> TaskCheckRunRunning" by simp
  show ?thesis
    using patch_table_cases [of flt tbl patch]
  proof
    assume "snd (PatchTaskCheckRunStatus flt tbl patch) = tbl"
    then show ?thesis by (simp add: OpPatch)
  next
    assume m: "snd (PatchTaskCheckRunStatus flt tbl patch)
      = map (\<lambda>r. if where_all (patch_where patch) r then patch_set patch r else r) tbl"
    show ?thesis
      unfolding running_of_pair_def OpPatch registry_step.simps m
      by (rule length_filter_map_le) (use ns in \<open>auto simp: patch_set_fields split: if_splits\<close>)
  qed
qed

lemma run_running_of_task:
  assumes "list_all patches_out_of_running ops"
    and "length (running_of_task t tbl) \<le> 1"
  shows "length (running_of_task t (registry_run tbl ops)) \<le> 1"
  using assms
proof (induction ops arbitrary: tbl)
  case Nil
  then show ?case by (simp add: registry_run_def)
next
  case (Cons op ops)
  from Cons.prems have "length (running_of_task t (registry_step tbl op)) \<le> 1"
    using step_running_of_task [of op t tbl] by simp
  with Cons show ?case by (simp add: registry_run_def)
qed

lemma pair_le_task: "length (running_of_pair t ty tbl) \<le> length (running_of_task t tbl)"
  unfolding running_of_pair_def running_of_task_def
  by (induction tbl) auto

subsection \<open>At most one Running run\<close>

text \<open>
  Claim C1 asks that every table reached from one without Running runs by
  \<open>CreateTaskCheckRunIfNeeded\<close> and \<open>PatchTaskCheckRunStatus\<close> has at most one Running run
  for each (task, check type) pair. As stated it fails: a patch writes whatever status
  it is given, Running included. From an empty table: create a run for task 5, patch it
  to Done, create a second run, patch the first back to Running.
\<close>

theorem registry_two_running_counterexample:
  "no_running [] \<and>
   length (running_of_pair 5 ''lint''
     (registry_run []
        [OpCreate NoFault example_defaults (example_create 5 ''lint'' False),
         OpPatch NoFault (example_patch (Some 1) TaskCheckRunDone),
         OpCreate NoFault example_defaults (example_create 5 ''lint'' False),
         OpPatch NoFault (example_patch (Some 1) TaskCheckRunRunning)])) = 2"
  by code_simp

text \<open>
  Claim C1, amended: when no patch of the sequence writes the status Running, every
  table reached from one without Running runs has at most one Running run for each
  (task, check type) pair, and no further such operation raises the number of Running
  runs of a pair that has one.
\<close>

theorem registry_at_most_one_running:
  assumes "no_running tbl" and "list_all patches_out_of_running ops"
  shows "length (running_of_pair t ty (registry_run tbl ops)) \<le> 1 \<and>
         (\<forall>op. patches_out_of_running op \<and> running_of_pair t ty (registry_run tbl ops) \<noteq> []
            \<longrightarrow> length (running_of_pair t ty (registry_step (registry_run tbl ops) op))
                  \<le> length (running_of_pair t ty (registry_run tbl ops)))"
proof -
  from assms(1) have "running_of_task t tbl = []"
    by (auto simp: no_running_def running_of_task_def filter_empty_conv)
  then have "length (running_of_task t (registry_run tbl ops)) \<le> 1"
    using run_running_of_task [OF assms(2), of t tbl] by simp
  then have "length (running_of_pair t ty (registry_run tbl ops)) \<le> 1"
    using pair_le_task [of t ty "registry_run tbl ops"] by linarith
  then show ?thesis
    using step_running_of_pair by blast
qed

theorem registry_at_most_one_running_witness:
  "no_running [example_run 1 5 ''lint'' TaskCheckRunDone] \<and>
   list_all patches_out_of_running
     [OpCreate NoFault example_defaults (example_create 5 ''lint'' False),
      OpCreate NoFault example_defaults (example_create 5 ''lint'' False),
      OpPatch NoFault (example_patch (Some 2) TaskCheckRunDone),
      OpCreate NoFault example_defaults (example_create 5 ''lint'' False)] \<and>
   running_of_pair 5 ''lint''
     (registry_run [example_run 1 5 ''lint'' TaskCheckRunDone]
        [OpCreate NoFault example_defaults (example_create 5 ''lint'' False),
         OpCreate NoFault example_defaults (example_create 5 ''lint'' False),
         OpPatch NoFault (example_patch (Some 2) TaskCheckRunDone),
         OpCreate NoFault example_defaults (example_create 5 ''lint'' False)])
     = [example_run 3 5 ''lint'' TaskCheckRunRunning] \<and>
   length (running_of_pair 5 ''lint''
     (registry_run [example_run 1 5 ''lint'' TaskCheckRunDone]
        [OpCreate NoFault example_defaults (example_create 5 ''lint'' False),
         OpCreate NoFault example_defaults (example_create 5 ''lint'' False),
         OpPatch NoFault (example_patch (Some 2) TaskCheckRunDone),
         OpCreate NoFault example_defaults (example_create 5 ''lint'' False)])) \<le> 1"
proof -
  have a: "no_running [example_run 1 5 ''lint'' TaskCheckRunDone]"
    by (simp add: no_running_def example_run_def)
  have b: "list_all patches_out_of_running
     [OpCreate NoFault example_defaults (example_create 5 ''lint'' False),
      OpCreate NoFault example_defaults (example_create 5 ''lint'' False),
      OpPatch NoFault (example_patch (Some 2) TaskCheckRunDone),
      OpCreate NoFault example_defaults (example_create 5 ''lint'' False)]"
    by (simp add: example_patch_def)
  have c: "running_of_pair 5 ''lint''
     (registry_run [example_run 1 5 ''lint'' TaskCheckRunDone]
        [OpCreate NoFault example_defaults (example_create 5 ''lint'' False),
         OpCreate NoFault example_defaults (example_create 5 ''lint'' False),
         OpPatch NoFault (example_patch (Some 2) TaskCheckRunDone),
         OpCreate NoFault example_defaults (example_create 5 ''lint'' False)])
     = [example_run 3 5 ''lint'' TaskCheckRunRunning]"
    by code_simp
  show ?thesis
    using a b c registry_at_most_one_running [OF a b, of 5 "''lint''"] by simp
qed

subsection \<open>Ids stay distinct\<close>

text \<open>
  The id of an inserted row is larger than every id in the table and a patch keeps the
  ids, so ids that are distinct stay distinct under the operations of the registry.
\<close>

lemma fold_max_ge: "(m::int) \<le> fold max xs m"
  by (induction xs arbitrary: m) (auto intro: order_trans [OF max.cobounded2])

lemma fold_max_upper: "x \<in> set xs \<Longrightarrow> (x::int) \<le> fold max xs m"
proof (induction xs arbitrary: m)
  case Nil
  then show ?case by simp
next
  case (Cons y ys)
  show ?case
  proof (cases "x = y")
    case True
    have "y \<le> max y m" by simp
    also have "\<dots> \<le> fold max ys (max y m)" by (rule fold_max_ge)
    finally show ?thesis using True by simp
  next
    case False
    with Cons show ?thesis by simp
  qed
qed

lemma next_id_fresh: "r \<in> set tbl \<Longrightarrow> ID r < next_id tbl"
  using fold_max_upper [of "ID r" "map ID tbl" 0] by (simp add: next_id_def)

lemma registry_step_distinct_ids:
  assumes "distinct (map ID tbl)"
  shows "distinct (map ID (registry_step tbl op))"
proof (cases op)
  case (OpCreate flt dflt create)
  have "next_id tbl \<notin> ID ` set tbl"
    using next_id_fresh by fastforce
  then show ?thesis
    using assms create_table_cases [of flt dflt tbl create]
    by (auto simp: OpCreate inserted_row_fields)
next
  case (OpPatch flt patch)
  have "(ID \<circ> (\<lambda>r. if where_all (patch_where patch) r then patch_set patch r else r)) = ID"
    by (rule ext) (simp add: patch_set_fields)
  then have "map ID (map (\<lambda>r. if where_all (patch_where patch) r then patch_set patch r else r) tbl)
          = map ID tbl"
    by (simp only: map_map)
  then show ?thesis
    using assms patch_table_cases [of flt tbl patch]
    by (auto simp: OpPatch simp del: map_map)
qed

lemma registry_run_distinct_ids:
  "distinct (map ID tbl) \<Longrightarrow> distinct (map ID (registry_run tbl ops))"
  unfolding registry_run_def
  by (induction ops arbitrary: tbl) (simp_all add: registry_step_distinct_ids)

subsection \<open>The filter of findTaskCheckRunList\<close>

text \<open>
  Claim C8: for every filter, \<open>findTaskCheckRunList\<close> (when its \<open>SELECT\<close> does not fail)
  returns exactly the rows that satisfy the conjunction of one predicate for each
  field that is not nil: id equality, task id equality, status membership. A filter
  with every field nil returns the whole table.
\<close>

theorem findTaskCheckRunList_exact:
  "flt \<noteq> SelectFault \<Longrightarrow>
     findTaskCheckRunList flt tbl fnd = Inr (filter (find_matches fnd) tbl) \<and>
     (find_ID fnd = None \<and> find_TaskId fnd = None \<and> find_StatusList fnd = None
        \<longrightarrow> findTaskCheckRunList flt tbl fnd = Inr tbl)"
  by (simp add: findTaskCheckRunList_def where_all_find_where [abs_def] find_matches_def [abs_def])

theorem findTaskCheckRunList_exact_witness:
  "NoFault \<noteq> SelectFault \<and>
   findTaskCheckRunList NoFault
        [example_run 1 5 ''lint'' TaskCheckRunDone, example_run 2 5 ''lint'' TaskCheckRunRunning,
         example_run 3 6 ''lint'' TaskCheckRunRunning]
        \<lparr> find_ID = None, find_TaskId = Some 5, find_StatusList = Some [TaskCheckRunRunning] \<rparr>
     = Inr [example_run 2 5 ''lint'' TaskCheckRunRunning] \<and>
   findTaskCheckRunList NoFault
        [example_run 1 5 ''lint'' TaskCheckRunDone, example_run 2 5 ''lint'' TaskCheckRunRunning,
         example_run 3 6 ''lint'' TaskCheckRunRunning]
        \<lparr> find_ID = None, find_TaskId = None, find_StatusList = None \<rparr>
     = Inr [example_run 1 5 ''lint'' TaskCheckRunDone, example_run 2 5 ''lint'' TaskCheckRunRunning,
         example_run 3 6 ''lint'' TaskCheckRunRunning]"
  using findTaskCheckRunList_exact [of NoFault
        "[example_run 1 5 ''lint'' TaskCheckRunDone, example_run 2 5 ''lint'' TaskCheckRunRunning,
         example_run 3 6 ''lint'' TaskCheckRunRunning]"
        "\<lparr> find_ID = None, find_TaskId = Some 5, find_StatusList = Some [TaskCheckRunRunning] \<rparr>"]
    findTaskCheckRunList_exact [of NoFault
        "[example_run 1 5 ''lint'' TaskCheckRunDone, example_run 2 5 ''lint'' TaskCheckRunRunning,
         example_run 3 6 ''lint'' TaskCheckRunRunning]"
        "\<lparr> find_ID = None, find_TaskId = None, find_StatusList = None \<rparr>"]
  by (simp add: find_matches_def example_run_def)

subsection \<open>FindTaskCheckRunTx\<close>

text \<open>
  Claim C10: \<open>FindTaskCheckRunTx\<close> (when its \<open>SELECT\<close> does not fail) returns
  \<open>ENOTFOUND\<close> if and only if no row matches the filter, \<open>ECONFLICT\<close> if and only if
  more than one matches, and returns a run if and only if that run is the one match.
\<close>

theorem FindTaskCheckRunTx_codes:
  "flt \<noteq> SelectFault \<Longrightarrow>
     (FindTaskCheckRunTx flt tbl fnd = Inl ENOTFOUND
        \<longleftrightarrow> length (filter (find_matches fnd) tbl) = 0) \<and>
     (FindTaskCheckRunTx flt tbl fnd = Inl ECONFLICT
        \<longleftrightarrow> length (filter (find_matches fnd) tbl) > 1) \<and>
     (\<forall>r. FindTaskCheckRunTx flt tbl fnd = Inr r \<longleftrightarrow> filter (find_matches fnd) tbl = [r])"
  apply (simp add: FindTaskCheckRunTx_def findTaskCheckRunList_ok)
  apply (cases "filter (find_matches fnd) tbl")
   apply simp
  subgoal for a list by (cases list) auto
  done

theorem FindTaskCheckRunTx_codes_witness:
  "NoFault \<noteq> SelectFault \<and>
   FindTaskCheckRunTx NoFault
     [example_run 1 5 ''lint'' TaskCheckRunDone, example_run 2 5 ''lint'' TaskCheckRunRunning]
     \<lparr> find_ID = Some 2, find_TaskId = None, find_StatusList = None \<rparr>
     = Inr (example_run 2 5 ''lint'' TaskCheckRunRunning) \<and>
   FindTaskCheckRunTx NoFault
     [example_run 1 5 ''lint'' TaskCheckRunDone, example_run 2 5 ''lint'' TaskCheckRunRunning]
     \<lparr> find_ID = Some 3, find_TaskId = None, find_StatusList = None \<rparr>
     = Inl ENOTFOUND \<and>
   FindTaskCheckRunTx NoFault
     [example_run 1 5 ''lint'' TaskCheckRunDone, example_run 2 5 ''lint'' TaskCheckRunRunning]
     \<lparr> find_ID = None, find_TaskId = Some 5, find_StatusList = None \<rparr>
     = Inl ECONFLICT"
  using FindTaskCheckRunTx_codes [of NoFault
     "[example_run 1 5 ''lint'' TaskCheckRunDone, example_run 2 5 ''lint'' TaskCheckRunRunning]"
     "\<lparr> find_ID = Some 2, find_TaskId = None, find_StatusList = None \<rparr>"]
   FindTaskCheckRunTx_codes [of NoFault
     "[example_run 1 5 ''lint'' TaskCheckRunDone, example_run 2 5 ''lint'' TaskCheckRunRunning]"
     "\<lparr> find_ID = Some 3, find_TaskId = None, find_StatusList = None \<rparr>"]
   FindTaskCheckRunTx_codes [of NoFault
     "[example_run 1 5 ''lint'' TaskCheckRunDone, example_run 2 5 ''lint'' TaskCheckRunRunning]"
     "\<lparr> find_ID = None, find_TaskId = Some 5, find_StatusList = None \<rparr>"]
  by (simp add: find_matches_def example_run_def)

subsection \<open>The rows PatchTaskCheckRunStatusTx writes\<close>

lemma where_all_patch_where:
  "where_all (patch_where patch) r = (case patch_ID patch of None \<Rightarrow> True | Some v \<Rightarrow> ID r = v)"
  by (simp add: where_all_def patch_where_def split: option.splits)

text \<open>
  Claim C9: with \<open>patch.ID\<close> nil the \<open>WHERE\<close> clause is \<open>1 = 1\<close>:
  \<open>PatchTaskCheckRunStatusTx\<close> writes the updater, status, comment and result of the
  patch into every row and returns the first; with \<open>patch.ID\<close> set it writes them into
  the rows of that id (at most one, ids being distinct) and leaves every other row as
  it was. A written row keeps its other eight columns.
\<close>

theorem PatchTaskCheckRunStatusTx_frame:
  "flt \<noteq> UpdateFault \<Longrightarrow>
     (patch_ID patch = None \<longrightarrow>
        PatchTaskCheckRunStatusTx flt tbl patch =
          ((case tbl of
              [] \<Rightarrow> Inl (FormatError ScanNoRows)
            | r # _ \<Rightarrow>
                Inr (r\<lparr> UpdaterId := patch_UpdaterId patch, Status := patch_Status patch,
                        Comment := patch_Comment patch, Result := patch_Result patch \<rparr>)),
           map (\<lambda>r. r\<lparr> UpdaterId := patch_UpdaterId patch, Status := patch_Status patch,
                        Comment := patch_Comment patch, Result := patch_Result patch \<rparr>) tbl)) \<and>
     (\<forall>v. patch_ID patch = Some v \<longrightarrow>
        PatchTaskCheckRunStatusTx flt tbl patch =
          ((case filter (\<lambda>r. ID r = v) tbl of
              [] \<Rightarrow> Inl (FormatError ScanNoRows)
            | r # _ \<Rightarrow>
                Inr (r\<lparr> UpdaterId := patch_UpdaterId patch, Status := patch_Status patch,
                        Comment := patch_Comment patch, Result := patch_Result patch \<rparr>)),
           map (\<lambda>r. if ID r = v
                     then r\<lparr> UpdaterId := patch_UpdaterId patch, Status := patch_Status patch,
                             Comment := patch_Comment patch, Result := patch_Result patch \<rparr>
                     else r) tbl) \<and>
        (distinct (map ID tbl) \<longrightarrow> length (filter (\<lambda>r. ID r = v) tbl) \<le> 1)) \<and>
     (\<forall>i < length tbl.
        length (snd (PatchTaskCheckRunStatusTx flt tbl patch)) = length tbl \<and>
        (snd (PatchTaskCheckRunStatusTx flt tbl patch) ! i = tbl ! i \<or>
         UpdaterId (snd (PatchTaskCheckRunStatusTx flt tbl patch) ! i) = patch_UpdaterId patch \<and>
         Status (snd (PatchTaskCheckRunStatusTx flt tbl patch) ! i) = patch_Status patch \<and>
         Comment (snd (PatchTaskCheckRunStatusTx flt tbl patch) ! i) = patch_Comment patch \<and>
         Result (snd (PatchTaskCheckRunStatusTx flt tbl patch) ! i) = patch_Result patch \<and>
         ID (snd (PatchTaskCheckRunStatusTx flt tbl patch) ! i) = ID (tbl ! i) \<and>
         CreatorId (snd (PatchTaskCheckRunStatusTx flt tbl patch) ! i) = CreatorId (tbl ! i) \<and>
         CreatedTs (snd (PatchTaskCheckRunStatusTx flt tbl patch) ! i) = CreatedTs (tbl ! i) \<and>
         UpdatedTs (snd (PatchTaskCheckRunStatusTx flt tbl patch) ! i) = UpdatedTs (tbl ! i) \<and>
         TaskId (snd (PatchTaskCheckRunStatusTx flt tbl patch) ! i) = TaskId (tbl ! i) \<and>
         Name (snd (PatchTaskCheckRunStatusTx flt tbl patch) ! i) = Name (tbl ! i) \<and>
         Type (snd (PatchTaskCheckRunStatusTx flt tbl patch) ! i) = Type (tbl ! i) \<and>
         Payload (snd (PatchTaskCheckRunStatusTx flt tbl patch) ! i) = Payload (tbl ! i)))"
proof (intro conjI impI allI)
  assume f: "flt \<noteq> UpdateFault" and n: "patch_ID patch = None"
  then show "PatchTaskCheckRunStatusTx flt tbl patch =
          ((case tbl of
              [] \<Rightarrow> Inl (FormatError ScanNoRows)
            | r # _ \<Rightarrow>
                Inr (r\<lparr> UpdaterId := patch_UpdaterId patch, Status := patch_Status patch,
                        Comment := patch_Comment patch, Result := patch_Result patch \<rparr>)),
           map (\<lambda>r. r\<lparr> UpdaterId := patch_UpdaterId patch, Status := patch_Status patch,
                        Comment := patch_Comment patch, Result := patch_Result patch \<rparr>) tbl)"
    by (cases tbl)
       (simp_all add: PatchTaskCheckRunStatusTx_def where_all_patch_where [abs_def] Let_def
          patch_set_def [abs_def])
next
  fix v
  assume f: "flt \<noteq> UpdateFault" and s: "patch_ID patch = Some v"
  then show "PatchTaskCheckRunStatusTx flt tbl patch =
          ((case filter (\<lambda>r. ID r = v) tbl of
              [] \<Rightarrow> Inl (FormatError ScanNoRows)
            | r # _ \<Rightarrow>
                Inr (r\<lparr> UpdaterId := patch_UpdaterId patch, Status := patch_Status patch,
                        Comment := patch_Comment patch, Result := patch_Result patch \<rparr>)),
           map (\<lambda>r. if ID r = v
                     then r\<lparr> UpdaterId := patch_UpdaterId patch, Status := patch_Status patch,
                             Comment := patch_Comment patch, Result := patch_Result patch \<rparr>
                     else r) tbl)"
    by (cases "filter (\<lambda>r. ID r = v) tbl")
       (simp_all add: PatchTaskCheckRunStatusTx_def where_all_patch_where [abs_def] Let_def
          patch_set_def [abs_def])
next
  fix v
  assume d: "distinct (map ID tbl)"
  have "length (filter (\<lambda>r. ID r = v) tbl) = length (filter (\<lambda>i. i = v) (map ID tbl))"
    by (simp add: filter_map comp_def)
  also have "\<dots> = count_list (map ID tbl) v"
    by (induction tbl) auto
  also have "\<dots> \<le> 1"
    using d by (induction tbl) (auto simp: count_list_0_iff)
  finally show "length (filter (\<lambda>r. ID r = v) tbl) \<le> 1" .
next
  fix i
  assume f: "flt \<noteq> UpdateFault" and i: "i < length tbl"
  have t: "snd (PatchTaskCheckRunStatusTx flt tbl patch)
             = map (\<lambda>r. if where_all (patch_where patch) r then patch_set patch r else r) tbl"
    using f by (simp add: PatchTaskCheckRunStatusTx_def Let_def split: list.splits)
  show "length (snd (PatchTaskCheckRunStatusTx flt tbl patch)) = length tbl"
    by (simp add: t)
  show "snd (PatchTaskCheckRunStatusTx flt tbl patch) ! i = tbl ! i \<or>
         UpdaterId (snd (PatchTaskCheckRunStatusTx flt tbl patch) ! i) = patch_UpdaterId patch \<and>
         Status (snd (PatchTaskCheckRunStatusTx flt tbl patch) ! i) = patch_Status patch \<and>
         Comment (snd (PatchTaskCheckRunStatusTx flt tbl patch) ! i) = patch_Comment patch \<and>
         Result (snd (PatchTaskCheckRunStatusTx flt tbl patch) ! i) = patch_Result patch \<and>
         ID (snd (PatchTaskCheckRunStatusTx flt tbl patch) ! i) = ID (tbl ! i) \<and>
         CreatorId (snd (PatchTaskCheckRunStatusTx flt tbl patch) ! i) = CreatorId (tbl ! i) \<and>
         CreatedTs (snd (PatchTaskCheckRunStatusTx flt tbl patch) ! i) = CreatedTs (tbl ! i) \<and>
         UpdatedTs (snd (PatchTaskCheckRunStatusTx flt tbl patch) ! i) = UpdatedTs (tbl ! i) \<and>
         TaskId (snd (PatchTaskCheckRunStatusTx flt tbl patch) ! i) = TaskId (tbl ! i) \<and>
         Name (snd (PatchTaskCheckRunStatusTx flt tbl patch) ! i) = Name (tbl ! i) \<and>
         Type (snd (PatchTaskCheckRunStatusTx flt tbl patch) ! i) = Type (tbl ! i) \<and>
         Payload (snd (PatchTaskCheckRunStatusTx flt tbl patch) ! i) = Payload (tbl ! i)"
    using i by (simp add: t patch_set_def)
qed

theorem PatchTaskCheckRunStatusTx_frame_witness:
  "NoFault \<noteq> UpdateFault \<and>
   patch_ID (example_patch None TaskCheckRunFailed) = None \<and>
   PatchTaskCheckRunStatusTx NoFault
     [example_run 1 5 ''lint'' TaskCheckRunDone, example_run 2 6 ''lint'' TaskCheckRunRunning]
     (example_patch None TaskCheckRunFailed)
     = (Inr \<lparr> ID = 1, CreatorId = 1, CreatedTs = 0, UpdaterId = 2, UpdatedTs = 0, TaskId = 5,
              Name = ''check'', Status = TaskCheckRunFailed, Type = ''lint'',
              Comment = ''patched'', Result = ''[]'', Payload = [] \<rparr>,
        [\<lparr> ID = 1, CreatorId = 1, CreatedTs = 0, UpdaterId = 2, UpdatedTs = 0, TaskId = 5,
           Name = ''check'', Status = TaskCheckRunFailed, Type = ''lint'',
           Comment = ''patched'', Result = ''[]'', Payload = [] \<rparr>,
         \<lparr> ID = 2, CreatorId = 1, CreatedTs = 0, UpdaterId = 2, UpdatedTs = 0, TaskId = 6,
           Name = ''check'', Status = TaskCheckRunFailed, Type = ''lint'',
           Comment = ''patched'', Result = ''[]'', Payload = [] \<rparr>]) \<and>
   patch_ID (example_patch (Some 2) TaskCheckRunFailed) = Some 2 \<and>
   distinct (map ID
     [example_run 1 5 ''lint'' TaskCheckRunDone, example_run 2 6 ''lint'' TaskCheckRunRunning]) \<and>
   PatchTaskCheckRunStatusTx NoFault
     [example_run 1 5 ''lint'' TaskCheckRunDone, example_run 2 6 ''lint'' TaskCheckRunRunning]
     (example_patch (Some 2) TaskCheckRunFailed)
     = (Inr \<lparr> ID = 2, CreatorId = 1, CreatedTs = 0, UpdaterId = 2, UpdatedTs = 0, TaskId = 6,
              Name = ''check'', Status = TaskCheckRunFailed, Type = ''lint'',
              Comment = ''patched'', Result = ''[]'', Payload = [] \<rparr>,
        [\<lparr> ID = 1, CreatorId = 1, CreatedTs = 0, UpdaterId = 1, UpdatedTs = 0, TaskId = 5,
           Name = ''check'', Status = TaskCheckRunDone, Type = ''lint'',
           Comment = [], Result = [], Payload = [] \<rparr>,
         \<lparr> ID = 2, CreatorId = 1, CreatedTs = 0, UpdaterId = 2, UpdatedTs = 0, TaskId = 6,
           Name = ''check'', Status = TaskCheckRunFailed, Type = ''lint'',
           Comment = ''patched'', Result = ''[]'', Payload = [] \<rparr>])"
  using PatchTaskCheckRunStatusTx_frame [of NoFault "example_patch None TaskCheckRunFailed"
     "[example_run 1 5 ''lint'' TaskCheckRunDone, example_run 2 6 ''lint'' TaskCheckRunRunning]"]
    PatchTaskCheckRunStatusTx_frame [of NoFault "example_patch (Some 2) TaskCheckRunFailed"
     "[example_run 1 5 ''lint'' TaskCheckRunDone, example_run 2 6 ''lint'' TaskCheckRunRunning]"]
  by (simp add: example_patch_def example_run_def)

subsection \<open>More than one Running run in the query result\<close>

text \<open>
  Claim C7 asks that a call which finds more than one Running run returns the first run
  of the list and logs a warning. As stated it fails under \<open>SkipIfAlreadyDone\<close>: the
  loop returns a Done run as soon as it meets one, whatever it has counted. With two
  Running runs followed by a Done run the call returns the third run of the list and
  logs nothing.
\<close>

theorem CreateTaskCheckRunIfNeeded_done_after_running_counterexample:
  "FindTaskCheckRunListTx NoFault
     [example_run 1 5 ''lint'' TaskCheckRunRunning, example_run 2 5 ''lint'' TaskCheckRunRunning,
      example_run 3 5 ''lint'' TaskCheckRunDone]
     (create_find (example_create 5 ''lint'' True))
     = Inr [example_run 1 5 ''lint'' TaskCheckRunRunning,
            example_run 2 5 ''lint'' TaskCheckRunRunning,
            example_run 3 5 ''lint'' TaskCheckRunDone] \<and>
   CreateTaskCheckRunIfNeeded NoFault example_defaults
     [example_run 1 5 ''lint'' TaskCheckRunRunning, example_run 2 5 ''lint'' TaskCheckRunRunning,
      example_run 3 5 ''lint'' TaskCheckRunDone]
     (example_create 5 ''lint'' True)
     = (Inr (example_run 3 5 ''lint'' TaskCheckRunDone),
        [example_run 1 5 ''lint'' TaskCheckRunRunning, example_run 2 5 ''lint'' TaskCheckRunRunning,
         example_run 3 5 ''lint'' TaskCheckRunDone],
        []) \<and>
   example_run 3 5 ''lint'' TaskCheckRunDone \<noteq> example_run 1 5 ''lint'' TaskCheckRunRunning"
  by code_simp

text \<open>
  Claim C7, amended: when the query result holds more than one Running run and, under
  \<open>SkipIfAlreadyDone\<close>, no Done run, the call succeeds with the first run of the list,
  leaves the table as it was, and logs one warning; no error reaches the caller.
\<close>

theorem CreateTaskCheckRunIfNeeded_first_of_many:
  assumes "flt \<noteq> BeginTxFault"
    and "FindTaskCheckRunListTx flt tbl (create_find create) = Inr lst"
    and "1 < length (filter (\<lambda>r. Status r = TaskCheckRunRunning) lst)"
    and "create_SkipIfAlreadyDone create \<longrightarrow> list_all (\<lambda>r. Status r \<noteq> TaskCheckRunDone) lst"
  shows "lst \<noteq> [] \<and>
         CreateTaskCheckRunIfNeeded flt dflt tbl create =
           (Inr (lst ! 0), tbl,
            [Warn (length lst) (create_TaskId create) (create_Type create)])"
proof -
  from assms(3) have ne: "lst \<noteq> []" by auto
  have le: "1 < length lst"
    using assms(3) by (rule less_le_trans) (rule length_filter_le)
  show ?thesis
  proof (cases "create_SkipIfAlreadyDone create")
    case True
    with assms(4) have "List.find (\<lambda>r. Status r = TaskCheckRunDone) lst = None"
      by (simp add: find_None_iff list_all_iff)
    moreover from assms(3) have "filter (\<lambda>r. Status r = TaskCheckRunRunning) lst \<noteq> []"
      by auto
    ultimately show ?thesis
      using True assms(1,2,3) ne
      by (simp add: CreateTaskCheckRunIfNeeded_unfold count_running_find)
  next
    case False
    then show ?thesis
      using assms(1,2,3) ne le
      by (simp add: CreateTaskCheckRunIfNeeded_unfold)
  qed
qed

theorem CreateTaskCheckRunIfNeeded_first_of_many_witness:
  "NoFault \<noteq> BeginTxFault \<and>
   FindTaskCheckRunListTx NoFault
     [example_run 1 5 ''lint'' TaskCheckRunRunning, example_run 2 6 ''lint'' TaskCheckRunRunning,
      example_run 3 5 ''lint'' TaskCheckRunRunning]
     (create_find (example_create 5 ''lint'' True))
     = Inr [example_run 1 5 ''lint'' TaskCheckRunRunning,
            example_run 3 5 ''lint'' TaskCheckRunRunning] \<and>
   1 < length (filter (\<lambda>r. Status r = TaskCheckRunRunning)
         [example_run 1 5 ''lint'' TaskCheckRunRunning,
          example_run 3 5 ''lint'' TaskCheckRunRunning]) \<and>
   create_SkipIfAlreadyDone (example_create 5 ''lint'' True) \<and>
   list_all (\<lambda>r. Status r \<noteq> TaskCheckRunDone)
      [example_run 1 5 ''lint'' TaskCheckRunRunning,
       example_run 3 5 ''lint'' TaskCheckRunRunning] \<and>
   CreateTaskCheckRunIfNeeded NoFault example_defaults
     [example_run 1 5 ''lint'' TaskCheckRunRunning, example_run 2 6 ''lint'' TaskCheckRunRunning,
      example_run 3 5 ''lint'' TaskCheckRunRunning]
     (example_create 5 ''lint'' True)
     = (Inr (example_run 1 5 ''lint'' TaskCheckRunRunning),
        [example_run 1 5 ''lint'' TaskCheckRunRunning, example_run 2 6 ''lint'' TaskCheckRunRunning,
         example_run 3 5 ''lint'' TaskCheckRunRunning],
        [Warn 2 5 ''lint''])"
proof -
  let ?tbl = "[example_run 1 5 ''lint'' TaskCheckRunRunning,
               example_run 2 6 ''lint'' TaskCheckRunRunning,
               example_run 3 5 ''lint'' TaskCheckRunRunning]"
  let ?lst = "[example_run 1 5 ''lint'' TaskCheckRunRunning,
               example_run 3 5 ''lint'' TaskCheckRunRunning]"
  let ?c = "example_create 5 ''lint'' True"
  have a: "NoFault \<noteq> BeginTxFault" by simp
  have b: "FindTaskCheckRunListTx NoFault ?tbl (create_find ?c) = Inr ?lst"
    by code_simp
  have c: "1 < length (filter (\<lambda>r. Status r = TaskCheckRunRunning) ?lst)"
    by (simp add: example_run_def)
  have d: "create_SkipIfAlreadyDone ?c \<longrightarrow> list_all (\<lambda>r. Status r \<noteq> TaskCheckRunDone) ?lst"
    by (simp add: example_run_def)
  show ?thesis
    using a b c d CreateTaskCheckRunIfNeeded_first_of_many [OF a b c d, of example_defaults]
    by (simp add: example_create_def)
qed

subsection \<open>Runs of another check type\<close>

text \<open>
  Claim C2 asks that the query for duplicates is keyed on the task id and the check
  type. The filter of the source has no field for the type: with a Running run of type
  \<open>connect\<close> for task 5 in the table, a call for task 5 and type \<open>lint\<close> returns the
  \<open>connect\<close> run and inserts nothing, though the pair (5, \<open>lint\<close>) has no Running run.
\<close>

theorem CreateTaskCheckRunIfNeeded_other_type_running:
  "running_of_pair 5 ''lint'' [example_run 1 5 ''connect'' TaskCheckRunRunning] = [] \<and>
   CreateTaskCheckRunIfNeeded NoFault example_defaults
     [example_run 1 5 ''connect'' TaskCheckRunRunning] (example_create 5 ''lint'' False)
     = (Inr (example_run 1 5 ''connect'' TaskCheckRunRunning),
        [example_run 1 5 ''connect'' TaskCheckRunRunning], [])"
  by code_simp

text \<open>
  Claim C3 asks that under \<open>SkipIfAlreadyDone\<close> a Done run of the task and check type
  is returned. With a Done run of type \<open>connect\<close> stored before the Done run of type
  \<open>lint\<close>, the call for type \<open>lint\<close> returns the \<open>connect\<close> run. The table stays as it
  was.
\<close>

theorem CreateTaskCheckRunIfNeeded_other_type_done:
  "CreateTaskCheckRunIfNeeded NoFault example_defaults
     [example_run 1 5 ''connect'' TaskCheckRunDone, example_run 2 5 ''lint'' TaskCheckRunDone]
     (example_create 5 ''lint'' True)
     = (Inr (example_run 1 5 ''connect'' TaskCheckRunDone),
        [example_run 1 5 ''connect'' TaskCheckRunDone, example_run 2 5 ''lint'' TaskCheckRunDone],
        [])"
  by code_simp

text \<open>
  What the short-circuit does on every table: the first Done run of the task, in
  storage order, is returned, nothing is inserted and nothing is logged, so a second
  call returns the same run.
\<close>

lemma CreateTaskCheckRunIfNeeded_first_done:
  assumes "flt \<noteq> BeginTxFault" and "flt \<noteq> SelectFault"
    and "create_SkipIfAlreadyDone create"
    and "List.find (\<lambda>r. TaskId r = create_TaskId create \<and> Status r = TaskCheckRunDone) tbl = Some r"
  shows "CreateTaskCheckRunIfNeeded flt dflt tbl create = (Inr r, tbl, [])"
proof -
  have "List.find (\<lambda>r. Status r = TaskCheckRunDone) (filter (find_matches (create_find create)) tbl)
          = List.find (\<lambda>r. TaskId r = create_TaskId create \<and> Status r = TaskCheckRunDone) tbl"
    using assms(3) by (induction tbl) (auto simp: create_find_matches)
  then show ?thesis
    using assms
    by (simp add: CreateTaskCheckRunIfNeeded_unfold FindTaskCheckRunListTx_ok count_running_find)
qed

section \<open>Properties of the SQL task executor\<close>

subsection \<open>Every return is terminal\<close>

lemma run_on_driver_terminated: "fst (run_on_driver driver payload mi sql inst) = True"
  by (simp add: run_on_driver_def split: option.splits sum.splits)

text \<open>
  Claim C5: for every task and every behaviour of the collaborators (a payload that does
  not decode, a file name that does not parse, a failed connection, a missing migration
  schema, a failed statement or migration, or success) \<open>RunOnce\<close> returns
  \<open>terminated = true\<close>; on no input does it return \<open>false\<close>.
\<close>

theorem RunOnce_always_terminated: "fst (RunOnce env task) = True"
proof (cases "json_Unmarshal env (task_Payload task)")
  case (Inl err)
  then show ?thesis by (simp add: RunOnce_def)
next
  case (Inr payload)
  then show ?thesis
    by (simp add: RunOnce_def Let_def case_prod_beta run_on_driver_terminated
          split: sum.splits)
qed

theorem RunOnce_always_terminated_witness:
  "fst (RunOnce (example_env \<lparr> Statement = ''SELECT 1'', payload_VCSPushEvent = None \<rparr> False)
          example_task) = True"
  by (rule RunOnce_always_terminated)

subsection \<open>The empty statement\<close>

lemma run_on_driver_not_empty_sql:
  "fst (snd (run_on_driver driver payload mi sql inst)) \<noteq> Some EmptySqlStatement"
  by (simp add: run_on_driver_def split: option.splits sum.splits)

lemma migration_info_no_push:
  "payload_VCSPushEvent payload = None \<Longrightarrow>
     migration_info env payload =
       Inr \<lparr> mi_Version = [], mi_Type = Sql, mi_Description = [], mi_Creator = [] \<rparr>"
  by (simp add: migration_info_def)

text \<open>
  Claim C4: \<open>RunOnce\<close> returns the error \<open>empty sql statement\<close> exactly when the payload
  decodes, its migration info is derived, the trimmed statement is empty and the kind
  is not Baseline; it then returns \<open>terminated = true\<close> before any call on the
  instance. A payload without push event has the kind \<open>Sql\<close>, so its empty statement
  is always rejected.
\<close>

theorem RunOnce_empty_sql_statement:
  "(fst (snd (RunOnce env task)) = Some EmptySqlStatement \<longleftrightarrow>
      (\<exists>payload mi.
          json_Unmarshal env (task_Payload task) = Inr payload \<and>
          migration_info env payload = Inr mi \<and>
          strings_TrimSpace (Statement payload) = [] \<and> mi_Type mi \<noteq> Baseline)) \<and>
   (fst (snd (RunOnce env task)) = Some EmptySqlStatement \<longrightarrow>
      RunOnce env task = (True, Some EmptySqlStatement, [])) \<and>
   (\<forall>payload.
      json_Unmarshal env (task_Payload task) = Inr payload \<and>
      payload_VCSPushEvent payload = None \<and>
      strings_TrimSpace (Statement payload) = [] \<longrightarrow>
        migration_info env payload =
          Inr \<lparr> mi_Version = [], mi_Type = Sql, mi_Description = [], mi_Creator = [] \<rparr> \<and>
        RunOnce env task = (True, Some EmptySqlStatement, []))"
proof (intro conjI allI impI)
  show "fst (snd (RunOnce env task)) = Some EmptySqlStatement \<longleftrightarrow>
      (\<exists>payload mi.
          json_Unmarshal env (task_Payload task) = Inr payload \<and>
          migration_info env payload = Inr mi \<and>
          strings_TrimSpace (Statement payload) = [] \<and> mi_Type mi \<noteq> Baseline)"
    by (auto simp: RunOnce_def Let_def case_prod_beta run_on_driver_not_empty_sql
          split: sum.splits)
next
  assume "fst (snd (RunOnce env task)) = Some EmptySqlStatement"
  then show "RunOnce env task = (True, Some EmptySqlStatement, [])"
    by (auto simp: RunOnce_def Let_def case_prod_beta run_on_driver_not_empty_sql
          split: sum.splits if_splits)
next
  fix payload
  assume a: "json_Unmarshal env (task_Payload task) = Inr payload \<and>
      payload_VCSPushEvent payload = None \<and>
      strings_TrimSpace (Statement payload) = []"
  then show "migration_info env payload =
          Inr \<lparr> mi_Version = [], mi_Type = Sql, mi_Description = [], mi_Creator = [] \<rparr>"
    by (simp add: migration_info_no_push)
  from a show "RunOnce env task = (True, Some EmptySqlStatement, [])"
    by (simp add: RunOnce_def migration_info_no_push)
qed

theorem RunOnce_empty_sql_statement_witness:
  "json_Unmarshal
     (example_env \<lparr> Statement = [CHR 0x09, CHR 0xC2, CHR 0xA0, CHR 0xE3, CHR 0x80, CHR 0x80,
                                  CHR 0x0A, CHR 0x20],
                    payload_VCSPushEvent = None \<rparr> False)
     (task_Payload example_task)
     = Inr \<lparr> Statement = [CHR 0x09, CHR 0xC2, CHR 0xA0, CHR 0xE3, CHR 0x80, CHR 0x80,
                           CHR 0x0A, CHR 0x20],
             payload_VCSPushEvent = None \<rparr> \<and>
   strings_TrimSpace [CHR 0x09, CHR 0xC2, CHR 0xA0, CHR 0xE3, CHR 0x80, CHR 0x80,
                      CHR 0x0A, CHR 0x20] = [] \<and>
   RunOnce
     (example_env \<lparr> Statement = [CHR 0x09, CHR 0xC2, CHR 0xA0, CHR 0xE3, CHR 0x80, CHR 0x80,
                                  CHR 0x0A, CHR 0x20],
                    payload_VCSPushEvent = None \<rparr> False)
     example_task
     = (True, Some EmptySqlStatement, []) \<and>
   RunOnce
     (example_env \<lparr> Statement = [CHR 0xE3, CHR 0x80, CHR 0x80],
                    payload_VCSPushEvent =
                      Some (example_push ''db/shop__0001__migrate__add_table.sql'') \<rparr> False)
     example_task
     = (True, Some EmptySqlStatement, []) \<and>
   RunOnce
     (example_env \<lparr> Statement = [CHR 0xC2, CHR 0xA0],
                    payload_VCSPushEvent =
                      Some (example_push ''db/shop__0000__baseline__initial.sql'') \<rparr> False)
     example_task
     = (True, None,
        [CallOpen ''MYSQL'' example_config, CallNeedsSetupMigration,
         CallExecuteMigration
           \<lparr> mi_Version = ''0000'', mi_Type = Baseline, mi_Description = ''initial'',
             mi_Creator = ''alice'' \<rparr> []]) \<and>
   RunOnce
     (example_env \<lparr> Statement = [CHR 0xC2, CHR 0xA0] @ ''SELECT 1;'' @ [CHR 0xE3, CHR 0x80, CHR 0x80],
                    payload_VCSPushEvent = None \<rparr> False)
     example_task
     = (True, None, [CallOpen ''MYSQL'' example_config, CallExecute ''SELECT 1;''])"
proof -
  let ?blank = "[CHR 0x09, CHR 0xC2, CHR 0xA0, CHR 0xE3, CHR 0x80, CHR 0x80, CHR 0x0A, CHR 0x20]"
  let ?p = "\<lparr> Statement = ?blank, payload_VCSPushEvent = None \<rparr>"
  have a: "json_Unmarshal (example_env ?p False) (task_Payload example_task) = Inr ?p"
    by (simp add: example_env_def)
  have b: "payload_VCSPushEvent ?p = None" by simp
  have c: "strings_TrimSpace ?blank = []"
    by code_simp
  have d: "RunOnce (example_env ?p False) example_task = (True, Some EmptySqlStatement, [])"
    using a b c RunOnce_empty_sql_statement [of "example_env ?p False" example_task]
    by (metis TaskDatabaseSchemaUpdatePayload.select_convs(1))
  have e: "RunOnce
     (example_env \<lparr> Statement = [CHR 0xE3, CHR 0x80, CHR 0x80],
                    payload_VCSPushEvent =
                      Some (example_push ''db/shop__0001__migrate__add_table.sql'') \<rparr> False)
     example_task
     = (True, Some EmptySqlStatement, [])"
    by code_simp
  have f: "RunOnce
     (example_env \<lparr> Statement = [CHR 0xC2, CHR 0xA0],
                    payload_VCSPushEvent =
                      Some (example_push ''db/shop__0000__baseline__initial.sql'') \<rparr> False)
     example_task
     = (True, None,
        [CallOpen ''MYSQL'' example_config, CallNeedsSetupMigration,
         CallExecuteMigration
           \<lparr> mi_Version = ''0000'', mi_Type = Baseline, mi_Description = ''initial'',
             mi_Creator = ''alice'' \<rparr> []])"
    by code_simp
  have g: "RunOnce
     (example_env \<lparr> Statement = [CHR 0xC2, CHR 0xA0] @ ''SELECT 1;'' @ [CHR 0xE3, CHR 0x80, CHR 0x80],
                    payload_VCSPushEvent = None \<rparr> False)
     example_task
     = (True, None, [CallOpen ''MYSQL'' example_config, CallExecute ''SELECT 1;''])"
    by code_simp
  show ?thesis
    using a c d e f g by blast
qed

subsection \<open>Payloads with a push event\<close>

text \<open>
  Claim C6: for a payload that carries a push event, \<open>RunOnce\<close> parses the migration
  info from the base name of the added file and returns \<open>terminated = true\<close> with an
  error when that fails; the parsed info gets the commit author as creator; and once
  the connection is open it asks \<open>NeedsSetupMigration\<close> first: when the instance needs
  setup it returns the error \<open>missing migration schema\<close> and \<open>ExecuteMigration\<close> is not
  called, otherwise \<open>ExecuteMigration\<close> is called after the check with that info.
\<close>

theorem RunOnce_push_event:
  assumes "json_Unmarshal env (task_Payload task) = Inr payload"
    and "payload_VCSPushEvent payload = Some ev"
  shows
    "(\<forall>err. db_ParseMigrationInfo env (filepath_Base (Added (push_FileCommit ev))) = Inl err \<longrightarrow>
        RunOnce env task = (True, Some (FailedToStartSchemaMigration err), [])) \<and>
     (\<forall>parsed database driver.
        db_ParseMigrationInfo env (filepath_Base (Added (push_FileCommit ev))) = Inr parsed \<and>
        \<not> (mi_Type parsed \<noteq> Baseline \<and> strings_TrimSpace (Statement payload) = []) \<and>
        server_ComposeTaskRelationship env task = Inr database \<and>
        db_Open env (instance_Engine (database_Instance database)) (connection_config database)
          = Inr driver \<longrightarrow>
        migration_info env payload
          = Inr (parsed\<lparr> mi_Creator := AuthorName (push_FileCommit ev) \<rparr>) \<and>
        (NeedsSetupMigration driver = Inr True \<longrightarrow>
           RunOnce env task =
             (True, Some (MissingMigrationSchema (instance_Name (database_Instance database))),
              [CallOpen (instance_Engine (database_Instance database))
                 (connection_config database),
               CallNeedsSetupMigration])) \<and>
        (NeedsSetupMigration driver = Inr False \<longrightarrow>
           snd (snd (RunOnce env task)) =
             [CallOpen (instance_Engine (database_Instance database))
                (connection_config database),
              CallNeedsSetupMigration,
              CallExecuteMigration (parsed\<lparr> mi_Creator := AuthorName (push_FileCommit ev) \<rparr>)
                (strings_TrimSpace (Statement payload))]))"
proof (intro conjI allI impI)
  fix err
  assume "db_ParseMigrationInfo env (filepath_Base (Added (push_FileCommit ev))) = Inl err"
  then show "RunOnce env task = (True, Some (FailedToStartSchemaMigration err), [])"
    using assms by (simp add: RunOnce_def migration_info_def)
next
  fix parsed database driver
  assume h: "db_ParseMigrationInfo env (filepath_Base (Added (push_FileCommit ev))) = Inr parsed \<and>
        \<not> (mi_Type parsed \<noteq> Baseline \<and> strings_TrimSpace (Statement payload) = []) \<and>
        server_ComposeTaskRelationship env task = Inr database \<and>
        db_Open env (instance_Engine (database_Instance database)) (connection_config database)
          = Inr driver"
  then show mi: "migration_info env payload
          = Inr (parsed\<lparr> mi_Creator := AuthorName (push_FileCommit ev) \<rparr>)"
    using assms by (simp add: migration_info_def)
  {
    assume "NeedsSetupMigration driver = Inr True"
    then show "RunOnce env task =
             (True, Some (MissingMigrationSchema (instance_Name (database_Instance database))),
              [CallOpen (instance_Engine (database_Instance database))
                 (connection_config database),
               CallNeedsSetupMigration])"
      using assms h mi by (auto simp: RunOnce_def Let_def run_on_driver_def)
  }
  {
    assume "NeedsSetupMigration driver = Inr False"
    then show "snd (snd (RunOnce env task)) =
             [CallOpen (instance_Engine (database_Instance database))
                (connection_config database),
              CallNeedsSetupMigration,
              CallExecuteMigration (parsed\<lparr> mi_Creator := AuthorName (push_FileCommit ev) \<rparr>)
                (strings_TrimSpace (Statement payload))]"
      using assms h mi
      by (auto simp: RunOnce_def Let_def run_on_driver_def split: option.splits)
  }
qed

theorem RunOnce_push_event_witness:
  "json_Unmarshal
     (example_env \<lparr> Statement = [CHR 0xE3, CHR 0x80, CHR 0x80] @ ''CREATE TABLE t (a INT)''
                                  @ [CHR 0xC2, CHR 0xA0, CHR 0x0A],
                    payload_VCSPushEvent =
                      Some (example_push ''db/shop__0001__migrate__add_table.sql'') \<rparr> True)
     (task_Payload example_task)
     = Inr \<lparr> Statement = [CHR 0xE3, CHR 0x80, CHR 0x80] @ ''CREATE TABLE t (a INT)''
                           @ [CHR 0xC2, CHR 0xA0, CHR 0x0A],
             payload_VCSPushEvent =
               Some (example_push ''db/shop__0001__migrate__add_table.sql'') \<rparr> \<and>
   strings_TrimSpace ([CHR 0xE3, CHR 0x80, CHR 0x80] @ ''CREATE TABLE t (a INT)''
                        @ [CHR 0xC2, CHR 0xA0, CHR 0x0A])
     = ''CREATE TABLE t (a INT)'' \<and>
   RunOnce
     (example_env \<lparr> Statement = [CHR 0xE3, CHR 0x80, CHR 0x80] @ ''CREATE TABLE t (a INT)''
                                  @ [CHR 0xC2, CHR 0xA0, CHR 0x0A],
                    payload_VCSPushEvent =
                      Some (example_push ''db/shop__0001__migrate__add_table.sql'') \<rparr> True)
     example_task
     = (True, Some (MissingMigrationSchema ''prod''),
        [CallOpen ''MYSQL'' example_config, CallNeedsSetupMigration]) \<and>
   RunOnce
     (example_env \<lparr> Statement = [CHR 0xE3, CHR 0x80, CHR 0x80] @ ''CREATE TABLE t (a INT)''
                                  @ [CHR 0xC2, CHR 0xA0, CHR 0x0A],
                    payload_VCSPushEvent =
                      Some (example_push ''db/shop__0001__migrate__add_table.sql'') \<rparr> False)
     example_task
     = (True, None,
        [CallOpen ''MYSQL'' example_config, CallNeedsSetupMigration,
         CallExecuteMigration
           \<lparr> mi_Version = ''0001'', mi_Type = Migrate, mi_Description = ''add_table'',
             mi_Creator = ''alice'' \<rparr>
           ''CREATE TABLE t (a INT)'']) \<and>
   RunOnce
     (example_env \<lparr> Statement = ''CREATE TABLE t (a INT)'',
                    payload_VCSPushEvent = Some (example_push ''db/readme.txt'') \<rparr> False)
     example_task
     = (True, Some (FailedToStartSchemaMigration ''unrecognized migration file name''), [])"
proof -
  let ?ev = "example_push ''db/shop__0001__migrate__add_table.sql''"
  let ?stmt = "[CHR 0xE3, CHR 0x80, CHR 0x80] @ ''CREATE TABLE t (a INT)''
                 @ [CHR 0xC2, CHR 0xA0, CHR 0x0A]"
  let ?p = "\<lparr> Statement = ?stmt, payload_VCSPushEvent = Some ?ev \<rparr>"
  let ?mi = "\<lparr> mi_Version = ''0001'', mi_Type = Migrate, mi_Description = ''add_table'',
                mi_Creator = [] \<rparr>"
  have t: "strings_TrimSpace ?stmt = ''CREATE TABLE t (a INT)''"
    by code_simp
  have a: "json_Unmarshal (example_env ?p needs) (task_Payload example_task) = Inr ?p" for needs
    by (simp add: example_env_def)
  have b: "payload_VCSPushEvent ?p = Some ?ev" by simp
  have c: "db_ParseMigrationInfo (example_env ?p needs)
             (filepath_Base (Added (push_FileCommit ?ev))) = Inr ?mi" for needs
    by (simp add: example_env_def example_push_def filepath_Base_def example_parse_def)
  have d: "\<not> (mi_Type ?mi \<noteq> Baseline \<and> strings_TrimSpace (Statement ?p) = [])"
    using t by simp
  have e: "server_ComposeTaskRelationship (example_env ?p needs) example_task
             = Inr example_database" for needs
    by (simp add: example_env_def)
  have f: "db_Open (example_env ?p needs) (instance_Engine (database_Instance example_database))
             (connection_config example_database) = Inr (example_driver needs)" for needs
    by (simp add: example_env_def)
  have g: "NeedsSetupMigration (example_driver needs) = Inr needs" for needs
    by (simp add: example_driver_def)
  have cfg: "connection_config example_database = example_config"
    "instance_Engine (database_Instance example_database) = ''MYSQL''"
    "instance_Name (database_Instance example_database) = ''prod''"
    by (simp_all add: example_database_def example_instance_def connection_config_def
          example_config_def)
  have "RunOnce (example_env ?p True) example_task =
          (True, Some (MissingMigrationSchema (instance_Name (database_Instance example_database))),
           [CallOpen (instance_Engine (database_Instance example_database))
              (connection_config example_database),
            CallNeedsSetupMigration])"
    using RunOnce_push_event [OF a [of True] b] c [of True] d e [of True] f [of True] g [of True]
    by blast
  then have h: "RunOnce (example_env ?p True) example_task
     = (True, Some (MissingMigrationSchema ''prod''),
        [CallOpen ''MYSQL'' example_config, CallNeedsSetupMigration])"
    by (simp add: cfg)
  have "snd (snd (RunOnce (example_env ?p False) example_task)) =
             [CallOpen (instance_Engine (database_Instance example_database))
                (connection_config example_database),
              CallNeedsSetupMigration,
              CallExecuteMigration (?mi\<lparr> mi_Creator := AuthorName (push_FileCommit ?ev) \<rparr>)
                (strings_TrimSpace (Statement ?p))]"
    using RunOnce_push_event [OF a [of False] b] c [of False] d e [of False] f [of False]
      g [of False]
    by blast
  then have i: "snd (snd (RunOnce (example_env ?p False) example_task)) =
        [CallOpen ''MYSQL'' example_config, CallNeedsSetupMigration,
         CallExecuteMigration
           \<lparr> mi_Version = ''0001'', mi_Type = Migrate, mi_Description = ''add_table'',
             mi_Creator = ''alice'' \<rparr>
           ''CREATE TABLE t (a INT)'']"
    using t by (simp add: cfg example_push_def)
  have j: "RunOnce (example_env ?p False) example_task
     = (True, None, snd (snd (RunOnce (example_env ?p False) example_task)))"
    using a [of False] b c [of False] d e [of False] f [of False] g [of False]
    by (simp add: RunOnce_def migration_info_def Let_def run_on_driver_def example_driver_def)
  have k: "RunOnce
     (example_env \<lparr> Statement = ''CREATE TABLE t (a INT)'',
                    payload_VCSPushEvent = Some (example_push ''db/readme.txt'') \<rparr> False)
     example_task
     = (True, Some (FailedToStartSchemaMigration ''unrecognized migration file name''), [])"
    by (simp add: RunOnce_def migration_info_def example_env_def example_push_def
          filepath_Base_def example_parse_def)
  show ?thesis
    using a [of True] t h i j k by simp
qed

end
